theory Spec2Isabelle
  imports Main
begin

section \<open>Code units and string primitives\<close>

text \<open>
  A JavaScript string is modelled as a list of code units below 256, one HOL
  character each. White space is what \<open>\s\<close> and \<open>trim\<close> recognise
  in that range; case mapping is that of \<open>toLowerCase\<close> on the same range.
\<close>

definition whiteSpace :: "char list" where
  "whiteSpace = [CHR 0x09, CHR 0x0A, CHR 0x0B, CHR 0x0C, CHR 0x0D, CHR 0x20, CHR 0xA0]"

definition isSpace :: "char \<Rightarrow> bool" where
  "isSpace c \<longleftrightarrow> c \<in> set whiteSpace"

definition isDigit :: "char \<Rightarrow> bool" where
  "isDigit c \<longleftrightarrow> c \<in> set ''0123456789''"

definition isUpperAZ :: "char \<Rightarrow> bool" where
  "isUpperAZ c \<longleftrightarrow> c \<in> set ''ABCDEFGHIJKLMNOPQRSTUVWXYZ''"

definition isLowerAZ :: "char \<Rightarrow> bool" where
  "isLowerAZ c \<longleftrightarrow> c \<in> set ''abcdefghijklmnopqrstuvwxyz''"

definition isAlpha :: "char \<Rightarrow> bool" where
  "isAlpha c \<longleftrightarrow> isUpperAZ c \<or> isLowerAZ c"

definition isWordChar :: "char \<Rightarrow> bool" where
  "isWordChar c \<longleftrightarrow> isAlpha c \<or> isDigit c \<or> c = CHR ''_''"

definition upperLatin :: "char list" where
  "upperLatin = ''ABCDEFGHIJKLMNOPQRSTUVWXYZ'' @
     [CHR 0xC0, CHR 0xC1, CHR 0xC2, CHR 0xC3, CHR 0xC4, CHR 0xC5, CHR 0xC6, CHR 0xC7,
      CHR 0xC8, CHR 0xC9, CHR 0xCA, CHR 0xCB, CHR 0xCC, CHR 0xCD, CHR 0xCE, CHR 0xCF,
      CHR 0xD0, CHR 0xD1, CHR 0xD2, CHR 0xD3, CHR 0xD4, CHR 0xD5, CHR 0xD6,
      CHR 0xD8, CHR 0xD9, CHR 0xDA, CHR 0xDB, CHR 0xDC, CHR 0xDD, CHR 0xDE]"

definition lowerLatin :: "char list" where
  "lowerLatin = ''abcdefghijklmnopqrstuvwxyz'' @
     [CHR 0xE0, CHR 0xE1, CHR 0xE2, CHR 0xE3, CHR 0xE4, CHR 0xE5, CHR 0xE6, CHR 0xE7,
      CHR 0xE8, CHR 0xE9, CHR 0xEA, CHR 0xEB, CHR 0xEC, CHR 0xED, CHR 0xEE, CHR 0xEF,
      CHR 0xF0, CHR 0xF1, CHR 0xF2, CHR 0xF3, CHR 0xF4, CHR 0xF5, CHR 0xF6,
      CHR 0xF8, CHR 0xF9, CHR 0xFA, CHR 0xFB, CHR 0xFC, CHR 0xFD, CHR 0xFE]"

definition toLowerChar :: "char \<Rightarrow> char" where
  "toLowerChar c = (case map_of (zip upperLatin lowerLatin) c of Some d \<Rightarrow> d | None \<Rightarrow> c)"

definition toLowerCase :: "string \<Rightarrow> string" where
  "toLowerCase s = map toLowerChar s"

text \<open>\<open>toUpperCase\<close> is only ever applied to a single ASCII letter, apostrophe or
  hyphen; on those it is the map below.\<close>

definition toUpperChar :: "char \<Rightarrow> char" where
  "toUpperChar c =
     (case map_of (zip ''abcdefghijklmnopqrstuvwxyz'' ''ABCDEFGHIJKLMNOPQRSTUVWXYZ'') c of
        Some d \<Rightarrow> d | None \<Rightarrow> c)"

definition dropTrailing :: "(char \<Rightarrow> bool) \<Rightarrow> string \<Rightarrow> string" where
  "dropTrailing P s = rev (dropWhile P (rev s))"

definition trim :: "string \<Rightarrow> string" where
  "trim s = dropTrailing isSpace (dropWhile isSpace s)"

text \<open>\<open>s.replace(/\s+/g, " ")\<close>: every maximal run of white space becomes one space.\<close>

function collapseWs :: "string \<Rightarrow> string" where
  "collapseWs [] = []"
| "collapseWs (c # s) =
     (if isSpace c then CHR '' '' # collapseWs (dropWhile isSpace s) else c # collapseWs s)"
  by pat_completeness auto
termination
  by (relation "measure length") (auto simp: length_dropWhile_le less_Suc_eq_le)

definition cleanText :: "string \<Rightarrow> string" where
  "cleanText v = (if v = [] then [] else trim (collapseWs v))"

text \<open>\<open>s.split(/\s+/)\<close>: the pieces between maximal runs of white space, empty
  pieces at either end included.\<close>

function splitWs :: "string \<Rightarrow> string list" where
  "splitWs s =
     (let tok = takeWhile (\<lambda>c. \<not> isSpace c) s; rest = dropWhile (\<lambda>c. \<not> isSpace c) s
      in if rest = [] then [tok] else tok # splitWs (dropWhile isSpace rest))"
  by pat_completeness auto
termination
proof (relation "measure length")
  fix s :: string and tok rest
  assume r: "rest = dropWhile (\<lambda>c. \<not> isSpace c) s" and ne: "rest \<noteq> []"
  from ne obtain c t where ct: "rest = c # t" by (cases rest) auto
  have "length (dropWhile isSpace rest) \<le> length rest" by (rule length_dropWhile_le)
  moreover have "isSpace c" using ct r hd_dropWhile[of "\<lambda>c. \<not> isSpace c" s] ne by auto
  then have "length (dropWhile isSpace rest) < length rest" using ct
    by (simp add: length_dropWhile_le less_Suc_eq_le)
  moreover have "length rest \<le> length s" unfolding r by (rule length_dropWhile_le)
  ultimately show "(dropWhile isSpace rest, s) \<in> measure length" by simp
qed simp

declare splitWs.simps [simp del]

definition strIncludes :: "string \<Rightarrow> string \<Rightarrow> bool" where
  "strIncludes s needle \<longleftrightarrow> (\<exists>i \<in> set [0..<Suc (length s)]. take (length needle) (drop i s) = needle)"

definition joinWith :: "string \<Rightarrow> string list \<Rightarrow> string" where
  "joinWith sep xs = (case xs of [] \<Rightarrow> [] | x # r \<Rightarrow> foldl (\<lambda>acc y. acc @ sep @ y) x r)"

section \<open>Regular expressions\<close>

text \<open>
  The patterns of the program are written as terms of \<open>rx\<close> and run by a
  backtracking matcher that lists the ways a pattern can match at a position in the
  order in which the runtime tries them: alternatives left to right, \<open>Star\<close> greedy,
  \<open>Lazy\<close> (the quantifier \<open>*?\<close>) shortest first.
  A matcher state is the code unit before the position (if any) and the rest of the input.
\<close>

datatype rx =
    Eps
  | One "char \<Rightarrow> bool"
  | Seq rx rx
  | Alt rx rx
  | Star rx
  | Lazy rx
  | Bol
  | Eol
  | WordB

type_synonym rxstate = "char option \<times> string"

definition wordBefore :: "char option \<Rightarrow> bool" where
  "wordBefore p = (case p of None \<Rightarrow> False | Some c \<Rightarrow> isWordChar c)"

definition wordAfter :: "string \<Rightarrow> bool" where
  "wordAfter s = (case s of [] \<Rightarrow> False | c # _ \<Rightarrow> isWordChar c)"

function rxm :: "rx \<Rightarrow> rxstate \<Rightarrow> rxstate list" where
  "rxm Eps st = [st]"
| "rxm (One P) st =
     (case snd st of [] \<Rightarrow> [] | c # t \<Rightarrow> if P c then [(Some c, t)] else [])"
| "rxm (Seq a b) st = concat (map (rxm b) (rxm a st))"
| "rxm (Alt a b) st = rxm a st @ rxm b st"
| "rxm (Star a) st =
     concat (map (\<lambda>st'. if length (snd st') < length (snd st) then rxm (Star a) st' else [])
                 (rxm a st)) @ [st]"
| "rxm (Lazy a) st =
     st # concat (map (\<lambda>st'. if length (snd st') < length (snd st) then rxm (Lazy a) st' else [])
                      (rxm a st))"
| "rxm Bol st = (if fst st = None then [st] else [])"
| "rxm Eol st = (if snd st = [] then [st] else [])"
| "rxm WordB st = (if wordBefore (fst st) \<noteq> wordAfter (snd st) then [st] else [])"
  by pat_completeness auto
termination
  by (relation "measure size <*lex*> measure (\<lambda>st. length (snd st))") auto

definition lit :: "string \<Rightarrow> rx" where
  "lit s = foldr (\<lambda>c r. Seq (One (\<lambda>x. x = c)) r) s Eps"

definition litI :: "string \<Rightarrow> rx" where
  "litI s = foldr (\<lambda>c r. Seq (One (\<lambda>x. toLowerChar x = toLowerChar c)) r) s Eps"

definition cls :: "string \<Rightarrow> rx" where
  "cls s = One (\<lambda>x. x \<in> set s)"

definition opt :: "rx \<Rightarrow> rx" where
  "opt r = Alt r Eps"

definition plus :: "rx \<Rightarrow> rx" where
  "plus r = Seq r (Star r)"

definition alts :: "rx list \<Rightarrow> rx" where
  "alts rs = (case rs of [] \<Rightarrow> Eps | r # rest \<Rightarrow> foldl Alt r rest)"

definition seqs :: "rx list \<Rightarrow> rx" where
  "seqs rs = foldr Seq rs Eps"

primrec rxRep :: "nat \<Rightarrow> rx \<Rightarrow> rx" where
  "rxRep 0 r = Eps"
| "rxRep (Suc n) r = Seq r (rxRep n r)"

primrec rxUpTo :: "nat \<Rightarrow> rx \<Rightarrow> rx" where
  "rxUpTo 0 r = Eps"
| "rxUpTo (Suc n) r = Alt (Seq r (rxUpTo n r)) Eps"

text \<open>\<open>exec\<close>: the first position, from the left, at which the pattern matches, with
  the text before the match, the matched text and the text after it.\<close>

fun rxExecFrom :: "rx \<Rightarrow> string \<Rightarrow> string \<Rightarrow> (string \<times> string \<times> string) option" where
  "rxExecFrom r pre s =
     (case rxm r (case pre of [] \<Rightarrow> None | c # _ \<Rightarrow> Some c, s) of
        st # _ \<Rightarrow> Some (rev pre, take (length s - length (snd st)) s, snd st)
      | [] \<Rightarrow> (case s of [] \<Rightarrow> None | c # t \<Rightarrow> rxExecFrom r (c # pre) t))"

declare rxExecFrom.simps [simp del]

definition rxExec :: "rx \<Rightarrow> string \<Rightarrow> (string \<times> string \<times> string) option" where
  "rxExec r s = rxExecFrom r [] s"

definition rxTest :: "rx \<Rightarrow> string \<Rightarrow> bool" where
  "rxTest r s \<longleftrightarrow> rxExec r s \<noteq> None"

definition rxMatch :: "rx \<Rightarrow> string \<Rightarrow> string option" where
  "rxMatch r s = map_option (\<lambda>(pre, m, post). m) (rxExec r s)"

definition rxReplace :: "rx \<Rightarrow> string \<Rightarrow> string \<Rightarrow> string" where
  "rxReplace r rep s = (case rxExec r s of None \<Rightarrow> s | Some (pre, m, post) \<Rightarrow> pre @ rep @ post)"

text \<open>A replacement under the \<open>g\<close> flag: the input cut into the code units that
  no match covers (\<open>Inl\<close>) and the successive matches (\<open>Inr\<close>), searched from the
  left, each search starting where the previous match ended.\<close>

function rxSegments :: "rx \<Rightarrow> char option \<Rightarrow> string \<Rightarrow> (char + string) list" where
  "rxSegments r p s =
     (case rxm r (p, s) of
        st # _ \<Rightarrow>
          (let m = take (length s - length (snd st)) s in
           if m = [] then (case s of [] \<Rightarrow> [Inr []] | c # t \<Rightarrow> Inr [] # Inl c # rxSegments r (Some c) t)
           else Inr m # rxSegments r (Some (last m)) (drop (length m) s))
      | [] \<Rightarrow> (case s of [] \<Rightarrow> [] | c # t \<Rightarrow> Inl c # rxSegments r (Some c) t))"
  by pat_completeness auto
termination
proof (relation "measure (\<lambda>(r, p, s). length s)")
  show "wf (measure (\<lambda>(r, p, s). length s))" by simp
next
  fix r :: rx and p :: "char option" and s :: string and st sts m c t
  assume "s = c # t"
  then show "((r, Some c, t), (r, p, s)) \<in> measure (\<lambda>(r, p, s). length s)" by simp
next
  fix r :: rx and p :: "char option" and s :: string and st sts m
  assume m: "m = take (length s - length (snd st)) s" and ne: "m \<noteq> []"
  from m ne have "0 < length m" and "s \<noteq> []" by auto
  then have "length (drop (length m) s) < length s" by simp
  then show "((r, Some (last m), drop (length m) s), (r, p, s)) \<in> measure (\<lambda>(r, p, s). length s)"
    by simp
next
  fix r :: rx and p :: "char option" and s :: string and c t
  assume "s = c # t"
  then show "((r, Some c, t), (r, p, s)) \<in> measure (\<lambda>(r, p, s). length s)" by simp
qed

declare rxSegments.simps [simp del]

definition rxReplaceAll :: "rx \<Rightarrow> string \<Rightarrow> string \<Rightarrow> string" where
  "rxReplaceAll r rep s =
     concat (map (\<lambda>seg. case seg of Inl c \<Rightarrow> [c] | Inr m \<Rightarrow> rep) (rxSegments r None s))"

definition anyChar :: rx where
  "anyChar = One (\<lambda>c. c \<notin> set [CHR 0x0A, CHR 0x0D])"

definition spaceRx :: rx where
  "spaceRx = One isSpace"

definition orElse :: "string \<Rightarrow> string \<Rightarrow> string" where
  "orElse a b = (if a \<noteq> [] then a else b)"

section \<open>Exceptions\<close>

text \<open>
  A thrown exception is a value. \<open>URIError\<close> is what \<open>decodeURIComponent\<close> throws
  on a malformed escape sequence. \<open>OutOfAlphabet\<close> is not an exception of the
  program: it marks an escape sequence that is well formed but decodes to a code unit
  above 255, where this model says nothing about the result.
  \<open>JsError name message\<close> is any other thrown \<open>Error\<close>.
\<close>

datatype exn = URIError | OutOfAlphabet | JsError string string

section \<open>\<open>decodeURIComponent\<close>\<close>

definition hexDigits :: "(char \<times> nat) list" where
  "hexDigits = zip ''0123456789abcdefABCDEF''
     [0, 1, 2, 3, 4, 5, 6, 7, 8, 9, 10, 11, 12, 13, 14, 15, 10, 11, 12, 13, 14, 15]"

text \<open>The input as a list of items: \<open>Inr c\<close> is a plain code unit, \<open>Inl b\<close> the octet
  of an escape \<open>%XX\<close>; \<open>None\<close> when a percent sign is not followed by two hex digits.\<close>

fun uriItems :: "string \<Rightarrow> (nat + char) list option" where
  "uriItems [] = Some []"
| "uriItems (c # s) =
     (if c \<noteq> CHR ''%'' then map_option ((#) (Inr c)) (uriItems s)
      else (case s of
              a # b # rest \<Rightarrow>
                (case (map_of hexDigits a, map_of hexDigits b) of
                   (Some x, Some y) \<Rightarrow> map_option ((#) (Inl (16 * x + y))) (uriItems rest)
                 | _ \<Rightarrow> None)
            | _ \<Rightarrow> None))"

definition isCont :: "nat + char \<Rightarrow> bool" where
  "isCont i = (case i of Inl b \<Rightarrow> 128 \<le> b \<and> b < 192 | Inr _ \<Rightarrow> False)"

definition octetOf :: "nat + char \<Rightarrow> nat" where
  "octetOf i = (case i of Inl b \<Rightarrow> b | Inr _ \<Rightarrow> 0)"

definition consChar :: "char \<Rightarrow> exn + string \<Rightarrow> exn + string" where
  "consChar c r = (case r of Inl e \<Rightarrow> Inl e | Inr t \<Rightarrow> Inr (c # t))"

definition beyondAlphabet :: "exn + string \<Rightarrow> exn + string" where
  "beyondAlphabet r = (case r of Inl URIError \<Rightarrow> Inl URIError | _ \<Rightarrow> Inl OutOfAlphabet)"

text \<open>UTF-8 decoding of the octets: an octet below 128 is its code unit; a lead octet
  announces one to three continuation octets, each of which must be an escape; anything
  that is not the UTF-8 encoding of a code point is a \<open>URIError\<close>.\<close>

fun utf8Items :: "(nat + char) list \<Rightarrow> exn + string" where
  "utf8Items [] = Inr []"
| "utf8Items (Inr c # r) = consChar c (utf8Items r)"
| "utf8Items (Inl b # r) =
     (if b < 128 then consChar (char_of b) (utf8Items r)
      else if b < 194 then Inl URIError
      else if b < 224 then
        (case r of
           i1 # r1 \<Rightarrow>
             if isCont i1 then
               (let cp = (b - 192) * 64 + (octetOf i1 - 128)
                in if cp < 256 then consChar (char_of cp) (utf8Items r1)
                   else beyondAlphabet (utf8Items r1))
             else Inl URIError
         | _ \<Rightarrow> Inl URIError)
      else if b < 240 then
        (case r of
           i1 # i2 # r2 \<Rightarrow>
             if isCont i1 \<and> isCont i2 \<and> (b = 224 \<longrightarrow> 160 \<le> octetOf i1)
                \<and> (b = 237 \<longrightarrow> octetOf i1 < 160)
             then beyondAlphabet (utf8Items r2) else Inl URIError
         | _ \<Rightarrow> Inl URIError)
      else if b < 245 then
        (case r of
           i1 # i2 # i3 # r3 \<Rightarrow>
             if isCont i1 \<and> isCont i2 \<and> isCont i3 \<and> (b = 240 \<longrightarrow> 144 \<le> octetOf i1)
                \<and> (b = 244 \<longrightarrow> octetOf i1 < 144)
             then beyondAlphabet (utf8Items r3) else Inl URIError
         | _ \<Rightarrow> Inl URIError)
      else Inl URIError)"

definition decodeURIComponent :: "string \<Rightarrow> exn + string" where
  "decodeURIComponent s = (case uriItems s of None \<Rightarrow> Inl URIError | Some items \<Rightarrow> utf8Items items)"

section \<open>DOI normalisation\<close>

definition isDoiChar :: "char \<Rightarrow> bool" where
  "isDoiChar c \<longleftrightarrow> c \<in> set ''-._;()/:'' \<or> isAlpha c \<or> isDigit c"

text \<open>\<open>/10\.\d{4,9}\/[-._;()/:A-Z0-9]+/i\<close>\<close>

definition doiRx :: rx where
  "doiRx = seqs [lit ''10.'', rxRep 4 (One isDigit), rxUpTo 5 (One isDigit), lit ''/'',
                 plus (One isDoiChar)]"

text \<open>\<open>/^https?:\/\/(?:dx\.)?doi\.org\//i\<close> and \<open>/^doi:\s*/i\<close>\<close>

definition doiResolverRx :: rx where
  "doiResolverRx = seqs [Bol, litI ''http'', opt (litI ''s''), lit ''://'', opt (litI ''dx.''),
                         litI ''doi.org/'']"

definition doiSchemeRx :: rx where
  "doiSchemeRx = seqs [Bol, litI ''doi:'', Star spaceRx]"

text \<open>\<open>.replace(/[)\],.;\s]+$/g, "")\<close>\<close>

definition isDoiTrailer :: "char \<Rightarrow> bool" where
  "isDoiTrailer c \<longleftrightarrow> c \<in> set '')],.;'' \<or> isSpace c"

definition normalizeDoi :: "string \<Rightarrow> exn + string" where
  "normalizeDoi doiOrUrl =
     (if doiOrUrl = [] then Inr []
      else case decodeURIComponent (trim doiOrUrl) of
        Inl e \<Rightarrow> Inl e
      | Inr raw0 \<Rightarrow>
          (let raw1 = rxReplace doiResolverRx [] raw0;
               raw2 = rxReplace doiSchemeRx [] raw1
           in case rxMatch doiRx raw2 of
                None \<Rightarrow> Inr []
              | Some m \<Rightarrow> Inr (''https://doi.org/'' @ toLowerCase (dropTrailing isDoiTrailer m))))"

definition extractDoiFromText :: "string \<Rightarrow> string" where
  "extractDoiFromText v =
     (if v = [] then []
      else case rxMatch doiRx v of
        None \<Rightarrow> []
      | Some m \<Rightarrow> ''https://doi.org/'' @ toLowerCase (dropTrailing isDoiTrailer m))"

section \<open>URLs\<close>

text \<open>
  \<open>new URL(s)\<close> and \<open>URLSearchParams\<close> belong to the runtime. The program's
  functions take them as a parameter \<open>U\<close>: \<open>newURL U s\<close> is the parsed URL, or
  \<open>None\<close> where the constructor throws, and \<open>paramsToString U\<close> serialises a list
  of query parameters.
\<close>

record url =
  protocol :: string
  hostname :: string
  origin :: string
  pathname :: string
  searchParams :: "(string \<times> string) list"
  hash :: string

record urlApi =
  newURL :: "string \<Rightarrow> url option"
  paramsToString :: "(string \<times> string) list \<Rightarrow> string"

record policy =
  name :: string
  hostPattern :: rx
  protected :: bool

text \<open>\<open>/(^|\.)host$/i\<close> and the same without the \<open>i\<close> flag.\<close>

definition hostRxI :: "string \<Rightarrow> rx" where
  "hostRxI h = seqs [Alt Bol (lit ''.''), litI h, Eol]"

definition hostRx :: "string \<Rightarrow> rx" where
  "hostRx h = seqs [Alt Bol (lit ''.''), lit h, Eol]"

definition DOMAIN_POLICIES :: "policy list" where
  "DOMAIN_POLICIES =
    [\<lparr>name = ''informs'', hostPattern = hostRxI ''pubsonline.informs.org'', protected = True\<rparr>,
     \<lparr>name = ''sage'', hostPattern = hostRxI ''journals.sagepub.com'', protected = True\<rparr>,
     \<lparr>name = ''wiley'', hostPattern = hostRxI ''onlinelibrary.wiley.com'', protected = True\<rparr>,
     \<lparr>name = ''springer_link'', hostPattern = hostRxI ''link.springer.com'', protected = True\<rparr>,
     \<lparr>name = ''sciencedirect'', hostPattern = hostRxI ''sciencedirect.com'', protected = True\<rparr>,
     \<lparr>name = ''oup'', hostPattern = hostRxI ''academic.oup.com'', protected = True\<rparr>,
     \<lparr>name = ''aom_atypon'', hostPattern = hostRxI ''journals.aom.org'', protected = True\<rparr>,
     \<lparr>name = ''doi'', hostPattern = hostRxI ''doi.org'', protected = False\<rparr>,
     \<lparr>name = ''default'', hostPattern = Star anyChar, protected = False\<rparr>]"

definition TRACKING_HOST_PATTERNS :: "rx list" where
  "TRACKING_HOST_PATTERNS =
    [hostRxI ''el.aom.org'', hostRxI ''el.wiley.com'', hostRxI ''click.skem1.com'',
     hostRxI ''lnk.springernature.com'', hostRxI ''links.springernature.com'',
     hostRxI ''link.mail.elsevier.com'', hostRxI ''click.notification.elsevier.com'']"

definition AOM_DOI_JOURNAL_BY_PREFIX :: "(string \<times> string) list" where
  "AOM_DOI_JOURNAL_BY_PREFIX =
    [(''amj'', ''Academy of Management Journal''),
     (''amd'', ''Academy of Management Discoveries''),
     (''amr'', ''Academy of Management Review''),
     (''amp'', ''Academy of Management Perspectives''),
     (''annals'', ''Academy of Management Annals''),
     (''amle'', ''Academy of Management Learning & Education'')]"

definition policyForUrl :: "urlApi \<Rightarrow> string \<Rightarrow> policy" where
  "policyForUrl U rawUrl =
     (let host = (case newURL U rawUrl of Some u \<Rightarrow> hostname u | None \<Rightarrow> [])
      in case List.find (\<lambda>item. rxTest (hostPattern item) host) DOMAIN_POLICIES of
           Some item \<Rightarrow> item
         | None \<Rightarrow> last DOMAIN_POLICIES)"

definition hostForUrl :: "urlApi \<Rightarrow> string \<Rightarrow> string" where
  "hostForUrl U rawUrl = (case newURL U rawUrl of Some u \<Rightarrow> hostname u | None \<Rightarrow> [])"

definition isTrackingUrl :: "urlApi \<Rightarrow> string \<Rightarrow> bool" where
  "isTrackingUrl U rawUrl =
     (let host = hostForUrl U rawUrl in list_ex (\<lambda>pattern. rxTest pattern host) TRACKING_HOST_PATTERNS)"

definition maybeCanonicalArticleUrl :: "urlApi \<Rightarrow> string \<Rightarrow> string" where
  "maybeCanonicalArticleUrl U rawUrl =
     (case newURL U rawUrl of
        None \<Rightarrow> rawUrl
      | Some u \<Rightarrow>
          if strIncludes (pathname u) ''/advance-article/doi/'' \<or> strIncludes (pathname u) ''/article/doi/''
          then origin u @ pathname u else rawUrl)"

text \<open>\<open>doi.match(/10\.5465\/([a-z]+)\./i)\<close>: the group is the matched text without
  the eight code units of \<open>10.5465/\<close> and without the closing dot.\<close>

definition aomPrefixRx :: rx where
  "aomPrefixRx = seqs [lit ''10.5465/'', plus (One isAlpha), lit ''.'']"

definition aomJournalFromDoi :: "string \<Rightarrow> exn + string" where
  "aomJournalFromDoi doiUrl =
     (case normalizeDoi doiUrl of
        Inl e \<Rightarrow> Inl e
      | Inr doi \<Rightarrow>
          (case rxMatch aomPrefixRx doi of
             None \<Rightarrow> Inr []
           | Some m \<Rightarrow>
               (case map_of AOM_DOI_JOURNAL_BY_PREFIX (toLowerCase (butlast (drop 8 m))) of
                  Some j \<Rightarrow> Inr j
                | None \<Rightarrow> Inr [])))"

definition inferJournalFallback :: "urlApi \<Rightarrow> string \<Rightarrow> string \<Rightarrow> string \<Rightarrow> string \<Rightarrow> exn + string" where
  "inferJournalFallback U journal pageTitle finalUrl doiUrl =
     (let direct = cleanText journal in
      if direct \<noteq> [] then Inr direct
      else case aomJournalFromDoi doiUrl of
        Inl e \<Rightarrow> Inl e
      | Inr fromDoi \<Rightarrow>
          if fromDoi \<noteq> [] then Inr fromDoi
          else
            (let title = cleanText pageTitle;
                 maybeJournal =
                   (if strIncludes title ''|''
                    then rxReplace (seqs [plus spaceRx, litI ''In-Press'', Eol]) []
                           (cleanText (tl (dropWhile (\<lambda>c. c \<noteq> CHR ''|'') title)))
                    else [])
             in if maybeJournal \<noteq> [] then Inr maybeJournal
                else if rxTest (hostRxI ''journals.aom.org'') (hostForUrl U finalUrl)
                then Inr ''Academy of Management [Not verified]''
                else Inr []))"

section \<open>Link classifiers\<close>

definition sepStar :: rx where
  "sepStar = Star (cls ''-_/?=&%'')"

definition classifyUnsafeAlertManagementLink :: "string \<Rightarrow> string \<Rightarrow> string option" where
  "classifyUnsafeAlertManagementLink rawUrl linkText =
     (let urlLower = toLowerCase rawUrl;
          textLower = toLowerCase (cleanText linkText);
          hrefMatches = (\<lambda>patterns. list_ex (\<lambda>pattern. rxTest pattern urlLower) patterns);
          textMatches = (\<lambda>patterns. list_ex (\<lambda>pattern. rxTest pattern textLower) patterns)
      in if urlLower = [] \<and> textLower = [] then None
         else if hrefMatches [litI ''unsubscribe'', litI ''removealert'']
                 \<or> textMatches [seqs [WordB, litI ''unsubscribe'', WordB]]
         then Some ''alert_unsubscribe_link''
         else if hrefMatches
                   [seqs [litI ''manage'', sepStar, litI ''alert'', opt (litI ''s'')],
                    seqs [litI ''alert'', sepStar, litI ''preference'', opt (litI ''s'')],
                    seqs [litI ''email'', sepStar, opt (seqs [litI ''notification'', sepStar]),
                          litI ''preference'', opt (litI ''s'')],
                    seqs [litI ''notification'', sepStar, litI ''preference'', opt (litI ''s'')]]
                 \<or> textMatches
                   [seqs [WordB, litI ''manage'', plus spaceRx, opt (seqs [litI ''my'', plus spaceRx]),
                          litI ''alert'', opt (litI ''s''), WordB],
                    seqs [WordB, alts [litI ''alert'', litI ''email'', litI ''notification''],
                          plus spaceRx, litI ''preference'', opt (litI ''s''), WordB],
                    seqs [WordB, litI ''manage'', plus spaceRx, litI ''preference'',
                          opt (litI ''s''), WordB]]
         then Some ''alert_management_preferences_link''
         else None)"

definition classifyUnsupportedUrlScheme :: "urlApi \<Rightarrow> string \<Rightarrow> string option" where
  "classifyUnsupportedUrlScheme U rawUrl =
     (let v = cleanText rawUrl in
      if v = [] then None
      else if rxTest (seqs [Bol, lit ''//'']) v then None
      else case newURL U v of
        None \<Rightarrow> None
      | Some u \<Rightarrow>
          (let scheme = toLowerCase (protocol u) in
           if scheme = [] \<or> scheme = ''http:'' \<or> scheme = ''https:'' \<or> scheme = ''file:''
           then None else Some ''unsupported_url_scheme''))"

definition optOr :: "'a option \<Rightarrow> 'a option \<Rightarrow> 'a option" where
  "optOr a b = (case a of Some x \<Rightarrow> Some x | None \<Rightarrow> b)"

definition classifyUnsafePreNavigationLink :: "urlApi \<Rightarrow> string \<Rightarrow> string \<Rightarrow> string option" where
  "classifyUnsafePreNavigationLink U rawUrl linkText =
     optOr (classifyUnsafeAlertManagementLink rawUrl linkText) (classifyUnsupportedUrlScheme U rawUrl)"

definition pathStarts :: "string \<Rightarrow> string \<Rightarrow> bool" where
  "pathStarts p pathName = rxTest (seqs [Bol, litI p]) pathName"

definition hasParam :: "url \<Rightarrow> string \<Rightarrow> bool" where
  "hasParam u k \<longleftrightarrow> k \<in> set (map fst (searchParams u))"

definition classifyKnownNonArticleLink :: "urlApi \<Rightarrow> string \<Rightarrow> string option" where
  "classifyKnownNonArticleLink U rawUrl =
     (case newURL U rawUrl of
        None \<Rightarrow> None
      | Some u \<Rightarrow>
         (let host = toLowerCase (hostname u);
              pathName = orElse (pathname u) ''/'';
              aomJournals = rxTest (hostRx ''journals.aom.org'') host
          in
          if aomJournals \<and> pathStarts ''/doi/'' pathName then None
          else if aomJournals \<and> pathStarts ''/action/removealert'' pathName
            then Some ''aom_alert_management_link''
          else if aomJournals \<and> (pathStarts ''/action/showlogin'' pathName \<or> pathStarts ''/s/login'' pathName)
            then Some ''aom_login_link''
          else if aomJournals \<and> pathStarts ''/action/'' pathName
            then Some ''aom_non_article_action_link''
          else if rxTest (hostRx ''myaccount.aom.org'') host then Some ''aom_account_link''
          else if rxTest (hostRx ''aom.org'') host \<and> \<not> aomJournals
            then Some ''aom_marketing_or_policy_link''
          else if rxTest (hostRx ''onlinelibrary.wiley.com'') host \<and> pathStarts ''/doi/'' pathName
            then None
          else if rxTest (hostRx ''onlinelibrary.wiley.com'') host
                  \<and> pathStarts ''/action/removealert'' pathName
            then Some ''wiley_alert_management_link''
          else if rxTest (hostRx ''onlinelibrary.wiley.com'') host \<and> pathStarts ''/action/'' pathName
            then Some ''wiley_non_article_action_link''
          else if rxTest (hostRx ''onlinelibrary.wiley.com'') host \<and> pathStarts ''/toc/'' pathName
            then Some ''wiley_toc_or_issue_link''
          else if rxTest (hostRx ''onlinelibrary.wiley.com'') host \<and> pathStarts ''/journal/'' pathName
            then Some ''wiley_journal_home_link''
          else if rxTest (hostRx ''onlinelibrary.wiley.com'') host \<and> (pathName = ''/'' \<or> pathName = [])
            then Some ''wiley_marketing_or_home_link''
          else if rxTest (hostRx ''link.springer.com'') host \<and> pathStarts ''/article/'' pathName
            then None
          else if rxTest (hostRx ''link.springer.com'') host
                  \<and> (pathStarts ''/content/pdf/'' pathName \<or> pathStarts ''/content/html/'' pathName)
            then Some ''springer_article_asset_link''
          else if rxTest (hostRx ''link.springer.com'') host \<and> pathStarts ''/journal/'' pathName
            then (if rxTest (seqs [litI ''/volumes-and-issues'', Alt (lit ''/'') Eol]) pathName
                  then Some ''springer_toc_or_issue_link''
                  else Some ''springer_journal_home_link'')
          else if rxTest (hostRx ''link.springer.com'') host
                  \<and> (pathStarts ''/search'' pathName \<or> pathStarts ''/collections/'' pathName)
            then Some ''springer_navigation_or_collection_link''
          else if rxTest (hostRx ''link.springer.com'') host
                  \<and> (pathStarts ''/account/'' pathName \<or> pathStarts ''/myaccount/'' pathName)
            then Some ''springer_account_or_preferences_link''
          else if rxTest (hostRx ''link.springer.com'') host \<and> (hasParam u ''error'' \<or> hasParam u ''code'')
            then Some ''springer_email_webview_link''
          else if rxTest (hostRx ''link.springer.com'') host \<and> (pathName = ''/'' \<or> pathName = [])
            then Some ''springer_marketing_or_home_link''
          else if rxTest (hostRx ''mail.google.com'') host
                  \<and> map_of (searchParams u) ''view'' = Some ''lg'' \<and> hasParam u ''permmsgid''
            then Some ''gmail_message_webview_link''
          else if rxTest (hostRx ''atypon.com'') host then Some ''technology_partner_link''
          else None))"

section \<open>Run-scoped deduplication of final URLs\<close>

definition isDedupeDropParam :: "string \<Rightarrow> bool" where
  "isDedupeDropParam key \<longleftrightarrow>
     rxTest (seqs [Bol, litI ''utm_'']) key \<or> rxTest (seqs [Bol, litI ''mc_'']) key
     \<or> rxTest (seqs [Bol, litI ''campaign'', Eol]) key \<or> rxTest (seqs [Bol, litI ''source'', Eol]) key"

definition normalizeFinalUrlForRunDedupe :: "urlApi \<Rightarrow> string \<Rightarrow> string" where
  "normalizeFinalUrlForRunDedupe U rawUrl =
     (case newURL U (maybeCanonicalArticleUrl U rawUrl) of
        None \<Rightarrow> []
      | Some u0 \<Rightarrow>
          (let u = u0\<lparr>hash := []\<rparr>;
               kept = filter (\<lambda>(key, v). \<not> isDedupeDropParam key) (searchParams u);
               query = paramsToString U kept
           in origin u @ pathname u @ (if query \<noteq> [] then ''?'' @ query else [])))"

text \<open>The run's set of seen final URLs is \<open>None\<close> when the caller passes none.\<close>

definition shouldSkipDuplicateFinalUrl :: "urlApi \<Rightarrow> string list option \<Rightarrow> string \<Rightarrow> string \<Rightarrow> bool" where
  "shouldSkipDuplicateFinalUrl U seenFinalUrls rawUrl inputUrl =
     (case seenFinalUrls of
        None \<Rightarrow> False
      | Some seen \<Rightarrow>
          (let key = normalizeFinalUrlForRunDedupe U rawUrl in
           if key = [] then False
           else if isTrackingUrl U rawUrl then False
           else if normalizeFinalUrlForRunDedupe U inputUrl = key then False
           else key \<in> set seen))"

definition rememberFinalUrl :: "urlApi \<Rightarrow> string list option \<Rightarrow> string \<Rightarrow> string list option" where
  "rememberFinalUrl U seenFinalUrls rawUrl =
     (case seenFinalUrls of
        None \<Rightarrow> None
      | Some seen \<Rightarrow>
          (let key = normalizeFinalUrlForRunDedupe U rawUrl in
           if key = [] then Some seen
           else if key \<in> set seen then Some seen else Some (seen @ [key])))"

section \<open>Field helpers\<close>

definition isNotVerifiedValue :: "string \<Rightarrow> bool" where
  "isNotVerifiedValue v =
     (let cleaned = cleanText v in cleaned = [] \<or> toLowerCase cleaned = ''[not verified]'')"

definition ensureField :: "string \<Rightarrow> string" where
  "ensureField v = orElse (cleanText v) ''[Not verified]''"

definition parseYearRx :: rx where
  "parseYearRx = seqs [WordB, Alt (lit ''19'') (lit ''20''), rxRep 2 (One isDigit), WordB]"

definition parseYear :: "string \<Rightarrow> string" where
  "parseYear v = (case rxMatch parseYearRx v of Some m \<Rightarrow> m | None \<Rightarrow> [])"

primrec uniqueFrom :: "string list \<Rightarrow> string list \<Rightarrow> string list" where
  "uniqueFrom seen [] = []"
| "uniqueFrom seen (v # vs) =
     (let cleaned = cleanText v in
      if cleaned = [] then uniqueFrom seen vs
      else if cleaned \<in> set seen then uniqueFrom seen vs
      else cleaned # uniqueFrom (cleaned # seen) vs)"

definition uniqueStrings :: "string list \<Rightarrow> string list" where
  "uniqueStrings values = uniqueFrom [] values"

section \<open>Article-type classification\<close>

definition INCLUDE_ARTICLE_TYPES :: "string list" where
  "INCLUDE_ARTICLE_TYPES = [''research-article'', ''research-paper'', ''editorial'']"

definition EXCLUDE_ARTICLE_TYPES :: "string list" where
  "EXCLUDE_ARTICLE_TYPES =
     [''book-review'', ''media-review'', ''discussion'', ''commentary'', ''corrigendum'',
      ''erratum'', ''retraction'', ''interview'', ''call-for-papers'', ''announcement'', ''news'']"

definition ws0 :: rx where
  "ws0 = Star spaceRx"

definition POLICY_ARTICLE_TYPE_OVERRIDES :: "(string \<times> (rx \<times> string) list) list" where
  "POLICY_ARTICLE_TYPE_OVERRIDES =
     [(''springer_link'',
       [(seqs [WordB, litI ''original'', ws0, litI ''paper'', WordB], ''research-article''),
        (seqs [WordB, litI ''original'', ws0, litI ''article'', WordB], ''research-article'')])]"

text \<open>The chain of tests of \<open>normalizeArticleTypeValue\<close>, in the order of the source;
  the first pattern that matches decides.\<close>

definition articleTypeRules :: "(rx \<times> string) list" where
  "articleTypeRules =
     [(seqs [WordB, litI ''editorial'', ws0, Alt (litI ''board'') (litI ''data''), WordB],
         ''announcement''),
      (Alt (seqs [litI ''book'', ws0, litI ''review'']) (seqs [litI ''media'', ws0, litI ''review'']),
         ''book-review''),
      (seqs [WordB, Alt (litI ''editorial'') (seqs [litI ''from the editor'', opt (litI ''s'')]), WordB],
         ''editorial''),
      (seqs [WordB, litI ''discussion'', WordB], ''discussion''),
      (seqs [WordB, alts [litI ''commentary'', litI ''perspective'', litI ''opinion''], WordB],
         ''commentary''),
      (seqs [WordB, Alt (litI ''corrigendum'') (litI ''corrigenda''), WordB], ''corrigendum''),
      (seqs [WordB, Alt (litI ''erratum'') (litI ''errata''), WordB], ''erratum''),
      (seqs [WordB, Alt (litI ''retraction'') (litI ''withdrawal''), WordB], ''retraction''),
      (seqs [WordB, litI ''interview'', WordB], ''interview''),
      (seqs [WordB, litI ''call'', ws0, litI ''for'', ws0, litI ''paper'', opt (litI ''s''), WordB],
         ''call-for-papers''),
      (seqs [WordB, Alt (litI ''announcement'') (litI ''announcements''), WordB], ''announcement''),
      (seqs [WordB, litI ''news'', WordB], ''news''),
      (seqs [WordB, alts [seqs [litI ''research'', ws0, litI ''paper''],
                          seqs [litI ''research'', ws0, litI ''article''],
                          seqs [litI ''original'', ws0, litI ''article'']], WordB],
         ''research-article''),
      (seqs [WordB, Alt (litI ''scholarlyarticle'') (litI ''journalarticle''), WordB],
         ''research-article''),
      (seqs [WordB, litI ''article'', WordB], ''research-article'')]"

text \<open>The result is the pair \<open>(normalized, matchedHint)\<close>.\<close>

definition normalizeArticleTypeValue :: "string \<Rightarrow> string \<Rightarrow> bool \<Rightarrow> string \<times> string" where
  "normalizeArticleTypeValue v policyName allowPolicyOverrides =
     (let text = toLowerCase (cleanText v) in
      if text = [] then ([], [])
      else
        (let overrides =
               (if allowPolicyOverrides
                then (case map_of POLICY_ARTICLE_TYPE_OVERRIDES (toLowerCase policyName) of
                        Some l \<Rightarrow> l | None \<Rightarrow> [])
                else [])
         in case List.find (\<lambda>(pattern, normalized). rxTest pattern text) (overrides @ articleTypeRules) of
              Some (pattern, normalized) \<Rightarrow> (normalized, cleanText v)
            | None \<Rightarrow> ([], [])))"

text \<open>A hint is \<open>null\<close>, a bare string, or an object with optional fields \<open>value\<close>
  and \<open>sourceLabel\<close>.\<close>

datatype hint = HNull | HStr string | HObj "string option" "string option"

definition hintValue :: "hint \<Rightarrow> string" where
  "hintValue h = (case h of
       HNull \<Rightarrow> []
     | HStr s \<Rightarrow> cleanText s
     | HObj (Some v) _ \<Rightarrow> cleanText v
     | HObj None _ \<Rightarrow> ''[object Object]'')"

definition hintLabel :: "string \<Rightarrow> hint \<Rightarrow> string" where
  "hintLabel dflt h = (case h of
       HObj _ (Some l) \<Rightarrow> orElse (cleanText (orElse l dflt)) dflt
     | _ \<Rightarrow> dflt)"

definition hintPresent :: "hint \<Rightarrow> bool" where
  "hintPresent h = (case h of HNull \<Rightarrow> False | HStr s \<Rightarrow> s \<noteq> [] | HObj _ _ \<Rightarrow> True)"

text \<open>The two collection loops of \<open>classifyArticleType\<close>: the kept hints are pairs
  \<open>(value, sourceLabel)\<close>; \<open>seen\<close> holds the keys already met, each the source
  label, a NUL and the value.\<close>

definition hintKey :: "string \<Rightarrow> string \<Rightarrow> string" where
  "hintKey label v = label @ [CHR 0x00] @ v"

primrec collectHints :: "string \<Rightarrow> string list \<Rightarrow> hint list
    \<Rightarrow> (string \<times> string) list \<times> string list" where
  "collectHints dflt seen [] = ([], seen)"
| "collectHints dflt seen (h # hs) =
     (if \<not> hintPresent h then collectHints dflt seen hs
      else let v = hintValue h in
        if v = [] then collectHints dflt seen hs
        else let key = hintKey (hintLabel dflt h) v in
          if key \<in> set seen then collectHints dflt seen hs
          else (case collectHints dflt (key # seen) hs of
                  (kept, seen') \<Rightarrow> ((v, hintLabel dflt h) # kept, seen')))"

record classification =
  c_articleType :: string
  c_ingestDecision :: string
  c_ingestReason :: string
  c_articleTypeClassificationSource :: string
  c_articleTypeMatchedHint :: string

definition classifyOne :: "string \<Rightarrow> string \<times> string \<Rightarrow> bool \<Rightarrow> classification option" where
  "classifyOne policyName h allowPolicyOverrides =
     (case normalizeArticleTypeValue (fst h) policyName allowPolicyOverrides of
        (normalized, matchedHint) \<Rightarrow>
          if normalized = [] then None
          else if normalized \<in> set EXCLUDE_ARTICLE_TYPES then
            Some \<lparr>c_articleType = normalized, c_ingestDecision = ''exclude'',
                  c_ingestReason = ''excluded_by_type:'' @ normalized,
                  c_articleTypeClassificationSource = snd h,
                  c_articleTypeMatchedHint = orElse matchedHint (fst h)\<rparr>
          else if normalized \<in> set INCLUDE_ARTICLE_TYPES then
            Some \<lparr>c_articleType = normalized, c_ingestDecision = ''include'',
                  c_ingestReason = ''included_by_type:'' @ normalized,
                  c_articleTypeClassificationSource = snd h,
                  c_articleTypeMatchedHint = orElse matchedHint (fst h)\<rparr>
          else None)"

primrec firstClassified :: "string \<Rightarrow> bool \<Rightarrow> (string \<times> string) list \<Rightarrow> classification option" where
  "firstClassified policyName allow [] = None"
| "firstClassified policyName allow (h # hs) =
     (case classifyOne policyName h allow of
        Some c \<Rightarrow> Some c
      | None \<Rightarrow> firstClassified policyName allow hs)"

definition classifyArticleType :: "string \<Rightarrow> hint list \<Rightarrow> hint list \<Rightarrow> classification" where
  "classifyArticleType policyName rawTypeHints semanticHints =
     (case collectHints ''publisher_raw_type'' [] rawTypeHints of
        (rawHints, seen) \<Rightarrow>
          (case collectHints ''title_heuristic'' seen semanticHints of
             (semanticHintList, seen') \<Rightarrow>
               (case firstClassified policyName True rawHints of
                  Some c \<Rightarrow> c
                | None \<Rightarrow>
                    (case firstClassified policyName False semanticHintList of
                       Some c \<Rightarrow> c
                     | None \<Rightarrow>
                         \<lparr>c_articleType = ''[Not verified]'', c_ingestDecision = ''not_verified'',
                          c_ingestReason = (if rawHints \<noteq> [] then ''article_type_unmapped_raw_hint''
                                            else ''article_type_unclear''),
                          c_articleTypeClassificationSource = ''none'',
                          c_articleTypeMatchedHint =
                            (case rawHints of [] \<Rightarrow> [] | h # _ \<Rightarrow> fst h)\<rparr>))))"

section \<open>Author formatting (\<open>scripts/verify_publisher_record.mjs\<close>)\<close>

text \<open>\<open>/^(dr|professor|prof|mr|mrs|ms)\.?\s+/i\<close> and
  \<open>/\s*,?\s*(ph\.?\s*d\.?|m\.?\s*d\.?|dba|mba|jd)\s*$/i\<close>\<close>

definition honorificPrefixRx :: rx where
  "honorificPrefixRx =
     seqs [Bol, alts [litI ''dr'', litI ''professor'', litI ''prof'', litI ''mr'', litI ''mrs'', litI ''ms''],
           opt (lit ''.''), plus spaceRx]"

definition postNominalRx :: rx where
  "postNominalRx =
     seqs [ws0, opt (lit '',''), ws0,
           alts [seqs [litI ''ph'', opt (lit ''.''), ws0, litI ''d'', opt (lit ''.'')],
                 seqs [litI ''m'', opt (lit ''.''), ws0, litI ''d'', opt (lit ''.'')],
                 litI ''dba'', litI ''mba'', litI ''jd''],
           ws0, Eol]"

definition stripAcademicHonorifics :: "string \<Rightarrow> string" where
  "stripAcademicHonorifics nm =
     trim (rxReplace postNominalRx [] (rxReplace honorificPrefixRx [] (cleanText nm)))"

text \<open>\<open>s.split(d)\<close> for a one-character separator.\<close>

primrec splitOn :: "char \<Rightarrow> string \<Rightarrow> string list" where
  "splitOn d [] = [[]]"
| "splitOn d (c # s) =
     (if c = d then [] # splitOn d s
      else (case splitOn d s of x # xs \<Rightarrow> (c # x) # xs | [] \<Rightarrow> [[c]]))"

definition nonEmpty :: "string list \<Rightarrow> string list" where
  "nonEmpty xs = filter (\<lambda>x. x \<noteq> []) xs"

text \<open>The initial of one given-name part that has already been reduced to letters and
  hyphens (and, in the second copy, apostrophes).\<close>

definition initialOf :: "string \<Rightarrow> string" where
  "initialOf part =
     (if CHR ''-'' \<in> set part
      then joinWith ''-'' (map (\<lambda>seg. [toUpperChar (hd seg), CHR ''.'']) (nonEmpty (splitOn CHR ''-'' part)))
      else [toUpperChar (hd part), CHR ''.''])"

definition formatApaAuthor :: "string \<Rightarrow> string" where
  "formatApaAuthor nm =
     (let cleaned = stripAcademicHonorifics nm in
      if cleaned = [] then []
      else case nonEmpty (splitWs cleaned) of
        [] \<Rightarrow> []
      | [p] \<Rightarrow> p
      | parts \<Rightarrow>
          (let surname = last parts;
               given = butlast parts;
               initials = joinWith '' ''
                 (map initialOf
                    (nonEmpty (map (filter (\<lambda>c. isAlpha c \<or> c = CHR ''-'')) given)))
           in if initials \<noteq> [] then surname @ '', '' @ initials else surname))"

text \<open>The deduplication loop shared by the author-list formatters: formatted names in
  order, empty ones skipped, one per lower-cased key.\<close>

primrec dedupeFormatted :: "string list \<Rightarrow> string list \<Rightarrow> string list" where
  "dedupeFormatted seen [] = []"
| "dedupeFormatted seen (formatted # rest) =
     (if formatted = [] then dedupeFormatted seen rest
      else let key = toLowerCase formatted in
        if key \<in> set seen then dedupeFormatted seen rest
        else formatted # dedupeFormatted (key # seen) rest)"

definition joinApaAuthors :: "string list \<Rightarrow> string" where
  "joinApaAuthors deduped =
     (case deduped of
        [] \<Rightarrow> []
      | [a] \<Rightarrow> a
      | [a, b] \<Rightarrow> a @ '', & '' @ b
      | _ \<Rightarrow> joinWith '', '' (butlast deduped) @ '', & '' @ last deduped)"

definition formatApaAuthors :: "string list \<Rightarrow> string" where
  "formatApaAuthors names = joinApaAuthors (dedupeFormatted [] (map formatApaAuthor names))"

section \<open>Records\<close>

record errorEntry =
  e_method :: string
  e_attempt :: nat
  e_rawTargetUrl :: string
  e_targetUrl :: string
  e_errorName :: string
  e_message :: string

text \<open>The output record. \<open>policyName\<close> and \<open>policyProtected\<close> are the two fields of
  \<open>record.policy\<close>; an unset \<open>resolvedUrl\<close> is the empty string. The clock reading
  \<open>verifiedAt\<close> and the bookkeeping objects \<open>tracking\<close> and \<open>retrieval\<close>, which no
  decision reads, are left out.\<close>

record vrecord =
  sourceUrl :: string
  finalUrl :: string
  title :: string
  authors :: "string list"
  year :: string
  journal :: string
  volume :: string
  issue :: string
  pageRange :: string
  publishedOnline :: string
  doiUrl :: string
  abstract :: string
  citation :: string
  missingFields :: "string list"
  status :: string
  articleTypeRaw :: string
  articleType :: string
  ingestDecision :: string
  ingestReason :: string
  articleTypeClassificationSource :: string
  articleTypeMatchedHint :: string
  policyName :: string
  policyProtected :: bool
  resolvedUrl :: string
  errors :: "errorEntry list"

text \<open>What the page hands to the record builder. A missing string field is the empty
  string; the three typed hints may be absent (\<open>None\<close>), as they are on the curl path.\<close>

record extracted =
  x_title :: string
  x_authors :: "string list"
  x_journal :: string
  x_publicationDate :: string
  x_volume :: string
  x_issue :: string
  x_pageRange :: string
  x_doiMeta :: string
  x_abstractText :: string
  x_articleTypeMetaHint :: "string option"
  x_articleTypeDomHint :: "string option"
  x_articleTypeJsonLdHint :: "string option"
  x_articleTypeHint :: string
  x_finalUrl :: string
  x_pageTitle :: string

definition buildApaCitation :: "vrecord \<Rightarrow> string" where
  "buildApaCitation r =
     (let authors = formatApaAuthors (authors r);
          year = cleanText (year r);
          title = cleanText (title r);
          journal = cleanText (journal r);
          volume = cleanText (volume r);
          issue = cleanText (issue r);
          pageRange = cleanText (pageRange r);
          doiUrl = cleanText (doiUrl r)
      in if list_ex isNotVerifiedValue [authors, year, title, journal, doiUrl] then ''[Not verified]''
         else
           (let hasVolume = \<not> isNotVerifiedValue volume;
                hasIssue = \<not> isNotVerifiedValue issue;
                hasPageRange = \<not> isNotVerifiedValue pageRange;
                hasPublishedOnline = \<not> isNotVerifiedValue (publishedOnline r)
            in if \<not> hasVolume \<and> \<not> hasIssue \<and> \<not> hasPageRange \<and> hasPublishedOnline
               then authors @ '' ('' @ year @ ''). '' @ title @ ''. '' @ journal
                    @ ''. Advance online publication. '' @ doiUrl
               else
                 (let volumeIssue = (if hasVolume
                                     then (if hasIssue then volume @ ''('' @ issue @ '')'' else volume)
                                     else []);
                      publicationTailParts = (if volumeIssue \<noteq> [] then [volumeIssue] else [])
                                             @ (if hasPageRange then [pageRange] else []);
                      publicationTail = joinWith '', '' publicationTailParts
                  in if publicationTail = [] then ''[Not verified]''
                     else authors @ '' ('' @ year @ ''). '' @ title @ ''. '' @ journal @ '', ''
                          @ publicationTail @ ''. '' @ doiUrl)))"

definition requiredFields :: "vrecord \<Rightarrow> (string \<times> string) list" where
  "requiredFields r =
     [(''title'', title r), (''doiUrl'', doiUrl r), (''journal'', journal r), (''year'', year r),
      (''abstract'', abstract r), (''citation'', citation r)]"

definition requiredMissing :: "vrecord \<Rightarrow> string list" where
  "requiredMissing r = map fst (filter (\<lambda>(key, v). isNotVerifiedValue v) (requiredFields r))"

text \<open>\<open>/\s+\|\s+Academy of Management .*$/i\<close>\<close>

definition aomTitleSuffixRx :: rx where
  "aomTitleSuffixRx =
     seqs [plus spaceRx, lit ''|'', plus spaceRx, litI ''Academy of Management '', Star anyChar, Eol]"

text \<open>The last two assignments of \<open>buildRecordFromExtracted\<close>: the missing fields, and
  the status they decide.\<close>

definition withStatus :: "vrecord \<Rightarrow> vrecord" where
  "withStatus r =
     (let missing = requiredMissing r
      in r\<lparr>missingFields := missing,
           status := (if missing \<noteq> [] then ''not_verified'' else ''verified'')\<rparr>)"

definition firstDoi :: "exn + string \<Rightarrow> exn + string \<Rightarrow> exn + string" where
  "firstDoi a b = (case a of Inl e \<Rightarrow> Inl e | Inr s \<Rightarrow> if s \<noteq> [] then Inr s else b)"

definition buildRecordFromExtracted :: "urlApi \<Rightarrow> extracted \<Rightarrow> string \<Rightarrow> string \<Rightarrow> exn + vrecord" where
  "buildRecordFromExtracted U ex srcUrl polName =
     (case firstDoi (normalizeDoi (x_doiMeta ex))
             (firstDoi (normalizeDoi (extractDoiFromText (x_finalUrl ex)))
                       (normalizeDoi (extractDoiFromText srcUrl))) of
        Inl e \<Rightarrow> Inl e
      | Inr doi \<Rightarrow>
         (let normalizedTitle = rxReplace aomTitleSuffixRx [] (cleanText (x_title ex)) in
          case inferJournalFallback U (x_journal ex) (x_pageTitle ex) (x_finalUrl ex) doi of
            Inl e \<Rightarrow> Inl e
          | Inr inferredJournal \<Rightarrow>
             (let yr = parseYear (x_publicationDate ex);
                  normalized =
                    \<lparr>sourceUrl = srcUrl,
                     finalUrl = orElse (x_finalUrl ex) srcUrl,
                     title = ensureField normalizedTitle,
                     authors = uniqueStrings (x_authors ex),
                     year = ensureField yr,
                     journal = ensureField (orElse inferredJournal (x_journal ex)),
                     volume = ensureField (x_volume ex),
                     issue = ensureField (x_issue ex),
                     pageRange = ensureField (x_pageRange ex),
                     publishedOnline = ensureField (x_publicationDate ex),
                     doiUrl = ensureField doi,
                     abstract = ensureField (x_abstractText ex),
                     citation = ''[Not verified]'',
                     missingFields = [],
                     status = [],
                     articleTypeRaw = ensureField (x_articleTypeHint ex),
                     articleType = ''[Not verified]'',
                     ingestDecision = ''not_verified'',
                     ingestReason = ''article_type_unclear'',
                     articleTypeClassificationSource = ''none'',
                     articleTypeMatchedHint = [],
                     policyName = [],
                     policyProtected = False,
                     resolvedUrl = [],
                     errors = []\<rparr>;
                  cl = classifyArticleType polName
                         [HObj (x_articleTypeMetaHint ex) (Some ''publisher_raw_type''),
                          HObj (x_articleTypeDomHint ex) (Some ''publisher_dom_type''),
                          HObj (x_articleTypeJsonLdHint ex) (Some ''publisher_jsonld_type'')]
                         [HObj (Some (x_title ex)) (Some ''title_heuristic''),
                          HObj (Some (x_pageTitle ex)) (Some ''page_title_heuristic'')];
                  classified = normalized
                    \<lparr>articleType := c_articleType cl,
                     ingestDecision := c_ingestDecision cl,
                     ingestReason := c_ingestReason cl,
                     articleTypeClassificationSource :=
                       orElse (c_articleTypeClassificationSource cl) ''none'',
                     articleTypeMatchedHint := c_articleTypeMatchedHint cl\<rparr>;
                  cited = classified\<lparr>citation := buildApaCitation classified\<rparr>
              in Inr (withStatus cited))))"

section \<open>Author parsing (second copy of the script)\<close>

text \<open>
  The second copy of \<open>verify_publisher_record.mjs\<close> parses each name into a
  structured author. Its \<open>formatApaAuthor\<close> and \<open>formatApaAuthors\<close> carry the
  suffix \<open>_p1\<close> here; everything else above is identical in the two copies.
\<close>

definition AUTHOR_FAMILY_PARTICLES :: "string list" where
  "AUTHOR_FAMILY_PARTICLES =
     [''da'', ''de'', ''del'', ''della'', ''der'', ''di'', ''du'', ''la'', ''le'', ''van'', ''von'',
      ''bin'', ''ibn'', ''al'', ''el'', ''st.'', ''st'']"

definition wordRxI :: "string \<Rightarrow> rx" where
  "wordRxI w = seqs [WordB, litI w, WordB]"

definition wordDotRxI :: "string \<Rightarrow> rx" where
  "wordDotRxI w = seqs [WordB, litI w, opt (lit ''.''), WordB]"

definition CORPORATE_AUTHOR_TERMS :: "rx list" where
  "CORPORATE_AUTHOR_TERMS =
     [wordRxI ''association'', wordRxI ''committee'', wordRxI ''consortium'', wordRxI ''university'',
      wordRxI ''center'', wordRxI ''centre'', wordRxI ''institute'', wordRxI ''organization'',
      wordRxI ''group'', wordRxI ''corporation'', wordDotRxI ''corp'', wordDotRxI ''inc'',
      wordDotRxI ''ltd'', wordRxI ''llc'', wordRxI ''plc'']"

definition AUTHOR_SUFFIX_RE :: rx where
  "AUTHOR_SUFFIX_RE =
     seqs [Bol, alts [litI ''jr'', litI ''sr'', litI ''ii'', litI ''iii'', litI ''iv'', litI ''v''],
           opt (lit ''.''), Eol]"

record author =
  raw :: string
  family :: string
  given :: "string list"
  suffix :: string
  formattedApa :: string
  parseMode :: string
  source :: string
  confidence :: string

record parseOptions =
  o_source :: string
  o_preferCommaSurnameFirst :: bool

definition isCommaSemi :: "char \<Rightarrow> bool" where
  "isCommaSemi c \<longleftrightarrow> c = CHR '','' \<or> c = CHR '';''"

definition normalizeAuthorToken :: "string \<Rightarrow> string" where
  "normalizeAuthorToken token = cleanText (dropTrailing isCommaSemi (dropWhile isCommaSemi token))"

definition looksCorporateAuthorName :: "string \<Rightarrow> bool" where
  "looksCorporateAuthorName nm =
     (let cleaned = cleanText nm in
      if cleaned = [] then False else list_ex (\<lambda>pattern. rxTest pattern cleaned) CORPORATE_AUTHOR_TERMS)"

definition splitGivenTokens :: "string \<Rightarrow> string list" where
  "splitGivenTokens r = nonEmpty (map normalizeAuthorToken (splitWs (cleanText r)))"

text \<open>The result is \<open>(tokens, suffix)\<close>; the flag \<open>hadUnsupportedSuffix\<close> is always
  false and nothing reads it.\<close>

definition extractAuthorSuffix :: "string list \<Rightarrow> string list \<times> string" where
  "extractAuthorSuffix tokens =
     (if tokens = [] then ([], [])
      else let lst = normalizeAuthorToken (last tokens) in
        if lst = [] then (butlast tokens, [])
        else if rxTest AUTHOR_SUFFIX_RE lst then
          (butlast tokens,
           (case rxReplace (seqs [lit ''.'', Eol]) [] lst of
              [] \<Rightarrow> []
            | c # t \<Rightarrow> (if isAlpha c then toUpperChar c else c) # t))
        else (tokens, []))"

definition buildAuthorInitials :: "string list \<Rightarrow> string" where
  "buildAuthorInitials givenTokens =
     joinWith '' ''
       (nonEmpty
          (map (\<lambda>part.
                  let cleaned = filter (\<lambda>c. isAlpha c \<or> c = CHR 0x27 \<or> c = CHR ''-'') part in
                  if cleaned = [] then [] else initialOf cleaned)
               (nonEmpty (map trim givenTokens))))"

definition formatApaAuthorFromStructured :: "author \<Rightarrow> string" where
  "formatApaAuthorFromStructured a =
     (let r = stripAcademicHonorifics (raw a);
          fam = cleanText (family a);
          gv = nonEmpty (map normalizeAuthorToken (given a));
          suf = cleanText (suffix a);
          pm = cleanText (parseMode a)
      in if pm = ''corporate'' \<or> pm = ''mononym'' then orElse r fam
         else if fam = [] then orElse r (buildAuthorInitials gv)
         else
           (let initials = buildAuthorInitials gv;
                rendered = (if initials \<noteq> [] then fam @ '', '' @ initials else fam)
            in if suf \<noteq> [] then rendered @ '', '' @ suf else rendered))"

definition normalizeStructuredAuthorCandidate :: "author \<Rightarrow> parseOptions \<Rightarrow> author option" where
  "normalizeStructuredAuthorCandidate candidate options =
     (let r = stripAcademicHonorifics (raw candidate);
          fam = cleanText (family candidate);
          givenRaw = nonEmpty (map normalizeAuthorToken (given candidate));
          suf = cleanText (suffix candidate);
          pm = orElse (cleanText (parseMode candidate)) ''structured'';
          src = cleanText (orElse (source candidate) (o_source options));
          conf = orElse (cleanText (confidence candidate)) ''high''
      in if fam = [] \<and> givenRaw = [] \<and> r = [] then None
         else
           (let normalized =
                  \<lparr>raw = orElse r (cleanText (joinWith '' '' (fam # givenRaw))),
                   family = fam, given = givenRaw, suffix = suf, formattedApa = [],
                   parseMode = pm, source = src, confidence = conf\<rparr>
            in Some (normalized\<lparr>formattedApa := formatApaAuthorFromStructured normalized\<rparr>)))"

text \<open>The result is the author (\<open>None\<close> for \<open>null\<close>) and the warnings.\<close>

definition parseAuthorName :: "string \<Rightarrow> parseOptions \<Rightarrow> author option \<times> string list" where
  "parseAuthorName rawName options =
     (let r = stripAcademicHonorifics rawName in
      if r = [] then (None, [])
      else if looksCorporateAuthorName r then
        (Some \<lparr>raw = r, family = [], given = [], suffix = [], formattedApa = r,
               parseMode = ''corporate'', source = cleanText (o_source options),
               confidence = ''medium''\<rparr>, [])
      else if CHR '','' \<in> set r then
        (let fam = cleanText (takeWhile (\<lambda>c. c \<noteq> CHR '','') r);
             givenPart = cleanText (tl (dropWhile (\<lambda>c. c \<noteq> CHR '','') r));
             suffixSplit = extractAuthorSuffix (splitGivenTokens givenPart);
             a = \<lparr>raw = r, family = fam, given = fst suffixSplit, suffix = snd suffixSplit,
                  formattedApa = [], parseMode = ''comma_surname_first'',
                  source = cleanText (o_source options), confidence = ''high''\<rparr>
         in (Some (a\<lparr>formattedApa := formatApaAuthorFromStructured a\<rparr>), []))
      else
        (let parts = nonEmpty (map normalizeAuthorToken (splitWs r)) in
         if length parts = 1 then
           (Some \<lparr>raw = r, family = [], given = [], suffix = [], formattedApa = hd parts,
                  parseMode = ''mononym'', source = cleanText (o_source options),
                  confidence = ''low''\<rparr>,
            [''author_parse_low_confidence_mononym''])
         else
           (let suffixSplit = extractAuthorSuffix parts;
                tokens = fst suffixSplit;
                isParticle = (\<lambda>t. toLowerCase t \<in> set AUTHOR_FAMILY_PARTICLES);
                leading = rev (butlast tokens);
                familyTokens = rev (takeWhile isParticle leading) @ (if tokens = [] then [] else [last tokens]);
                givenTokens = rev (dropWhile isParticle leading);
                fam = cleanText (joinWith '' '' familyTokens);
                a = \<lparr>raw = r, family = fam, given = givenTokens, suffix = snd suffixSplit,
                     formattedApa = [], parseMode = ''space_given_first'',
                     source = cleanText (o_source options), confidence = ''medium''\<rparr>
            in (Some (a\<lparr>formattedApa := formatApaAuthorFromStructured a\<rparr>),
                if fam = [] then [''author_parse_missing_family_name''] else []))))"

text \<open>The loop of \<open>parseAuthorList\<close>: \<open>seen\<close> holds the lower-cased keys
  \<open>formattedApa||raw\<close> already met.\<close>

primrec parseAuthorLoop :: "parseOptions \<Rightarrow> string list \<Rightarrow> string list \<Rightarrow> author list \<times> string list" where
  "parseAuthorLoop options seen [] = ([], [])"
| "parseAuthorLoop options seen (rawName # rest) =
     (case parseAuthorName rawName options of
        (None, ws) \<Rightarrow>
          (case parseAuthorLoop options seen rest of (as, ws') \<Rightarrow> (as, ws @ ws'))
      | (Some a, ws) \<Rightarrow>
          (case normalizeStructuredAuthorCandidate a options of
             None \<Rightarrow> (case parseAuthorLoop options seen rest of (as, ws') \<Rightarrow> (as, ws @ ws'))
           | Some normalized \<Rightarrow>
               (let key = toLowerCase (formattedApa normalized @ ''||'' @ raw normalized) in
                if key \<in> set seen
                then (case parseAuthorLoop options seen rest of (as, ws') \<Rightarrow> (as, ws @ ws'))
                else (case parseAuthorLoop options (key # seen) rest of
                        (as, ws') \<Rightarrow> (normalized # as, ws @ ws')))))"

definition parseAuthorList :: "string list \<Rightarrow> parseOptions \<Rightarrow> author list \<times> string list" where
  "parseAuthorList authorNames options =
     (case parseAuthorLoop options [] authorNames of (as, ws) \<Rightarrow> (as, uniqueStrings ws))"

definition noOptions :: parseOptions where
  "noOptions = \<lparr>o_source = [], o_preferCommaSurnameFirst = False\<rparr>"

definition formatApaAuthorsFromStructured :: "author list \<Rightarrow> string" where
  "formatApaAuthorsFromStructured authorObjs =
     joinApaAuthors (dedupeFormatted [] (map formatApaAuthorFromStructured authorObjs))"

definition formatApaAuthor_p1 :: "string \<Rightarrow> string" where
  "formatApaAuthor_p1 nm = formatApaAuthorsFromStructured (fst (parseAuthorList [nm] noOptions))"

definition formatApaAuthors_p1 :: "string list \<Rightarrow> string" where
  "formatApaAuthors_p1 names = formatApaAuthorsFromStructured (fst (parseAuthorList names noOptions))"

section \<open>Choosing the abstract\<close>

text \<open>\<open>/(all rights reserved|cookie|javascript|privacy policy)/i\<close>\<close>

definition boilerplateRx :: rx where
  "boilerplateRx =
     alts [litI ''all rights reserved'', litI ''cookie'', litI ''javascript'', litI ''privacy policy'']"

text \<open>\<open>/^abstract[:\s-]*/i\<close>\<close>

definition abstractLabelRx :: rx where
  "abstractLabelRx =
     seqs [Bol, litI ''abstract'', Star (One (\<lambda>c. c = CHR '':'' \<or> isSpace c \<or> c = CHR ''-''))]"

subsection \<open>Browser path: \<open>chooseBestAbstractLocal\<close>\<close>

definition cleanAbstractLocal :: "string \<Rightarrow> string" where
  "cleanAbstractLocal r = trim (rxReplace abstractLabelRx [] (collapseWs r))"

primrec normalizeLocal :: "string list \<Rightarrow> string list \<Rightarrow> string list" where
  "normalizeLocal seen [] = []"
| "normalizeLocal seen (r # rest) =
     (let cleaned = cleanAbstractLocal r in
      if cleaned = [] then normalizeLocal seen rest
      else let key = toLowerCase cleaned in
        if key \<in> set seen then normalizeLocal seen rest
        else cleaned # normalizeLocal (key # seen) rest)"

definition abstractScore :: "string \<Rightarrow> int" where
  "abstractScore text =
     int (length text)
     - (if rxTest (seqs [lit ''...'', Eol]) text then 120 else 0)
     - (if rxTest (seqs [Bol, litI ''click on the article title to read more'', opt (lit ''.''), Eol]) text
        then 200 else 0)
     - (if rxTest (seqs [Bol, litI ''click on the title to browse this issue'', opt (lit ''.''), Eol]) text
        then 200 else 0)"

text \<open>\<open>Array.prototype.sort\<close> is stable: \<open>sortBy cmp\<close> orders by the comparator and
  keeps the input order of elements that compare equal.\<close>

primrec insertBy :: "('a \<Rightarrow> 'a \<Rightarrow> int) \<Rightarrow> 'a \<Rightarrow> 'a list \<Rightarrow> 'a list" where
  "insertBy cmp x [] = [x]"
| "insertBy cmp x (y # ys) = (if cmp x y \<le> 0 then x # y # ys else y # insertBy cmp x ys)"

definition sortBy :: "('a \<Rightarrow> 'a \<Rightarrow> int) \<Rightarrow> 'a list \<Rightarrow> 'a list" where
  "sortBy cmp xs = foldr (insertBy cmp) xs []"

text \<open>\<open>(a, b) => b.score - a.score || b.text.length - a.text.length\<close>\<close>

definition scoreCmp :: "string \<times> int \<Rightarrow> string \<times> int \<Rightarrow> int" where
  "scoreCmp a b =
     (if snd b - snd a \<noteq> 0 then snd b - snd a else int (length (fst b)) - int (length (fst a)))"

definition chooseBestAbstractLocal :: "string list \<Rightarrow> string" where
  "chooseBestAbstractLocal candidates =
     (let normalized = normalizeLocal [] candidates in
      if normalized = [] then []
      else
        (let filtered = filter (\<lambda>text. \<not> rxTest boilerplateRx text) normalized;
             pool = (if filtered \<noteq> [] then filtered else normalized);
             scored = sortBy scoreCmp (map (\<lambda>text. (text, abstractScore text)) pool)
         in case scored of [] \<Rightarrow> [] | best # _ \<Rightarrow> fst best))"

subsection \<open>Curl path: \<open>chooseBestAbstract\<close>\<close>

definition anyCharNl :: rx where
  "anyCharNl = One (\<lambda>c. True)"

definition stripHtmlTags :: "string \<Rightarrow> string" where
  "stripHtmlTags v =
     rxReplaceAll (seqs [lit ''<'', plus (One (\<lambda>c. c \<noteq> CHR ''>'')), lit ''>'']) '' ''
       (rxReplaceAll (seqs [litI ''<style'', Lazy anyCharNl, litI ''</style>'']) '' ''
          (rxReplaceAll (seqs [litI ''<script'', Lazy anyCharNl, litI ''</script>'']) '' '' v))"

text \<open>A numeric character reference: the digits read in the given base. A value the
  runtime rounds to infinity leaves the reference as it is; a value above \<open>0x10FFFF\<close>
  makes \<open>String.fromCodePoint\<close> throw a \<open>RangeError\<close>.\<close>

definition digitsValue :: "nat \<Rightarrow> string \<Rightarrow> nat" where
  "digitsValue base ds = foldl (\<lambda>acc c. acc * base + (case map_of hexDigits c of Some d \<Rightarrow> d | None \<Rightarrow> 0)) 0 ds"

definition fromCodePointRef :: "nat \<Rightarrow> string \<Rightarrow> string \<Rightarrow> exn + string" where
  "fromCodePointRef base ds whole =
     (let code = digitsValue base ds in
      if code < 256 then Inr [char_of code]
      else if code \<le> 1114111 then Inl OutOfAlphabet
      else if code < 2 ^ 1024 - 2 ^ 970 then Inl (JsError ''RangeError'' ''Invalid code point'')
      else Inr whole)"

primrec concatResults :: "(exn + string) list \<Rightarrow> exn + string" where
  "concatResults [] = Inr []"
| "concatResults (x # xs) =
     (case x of Inl e \<Rightarrow> Inl e
      | Inr a \<Rightarrow> (case concatResults xs of Inl e \<Rightarrow> Inl e | Inr b \<Rightarrow> Inr (a @ b)))"

definition isHexDigit :: "char \<Rightarrow> bool" where
  "isHexDigit c \<longleftrightarrow> c \<in> set ''0123456789abcdefABCDEF''"

definition decodeHtmlEntities :: "string \<Rightarrow> exn + string" where
  "decodeHtmlEntities v =
     (let s1 = rxReplaceAll (litI ''&amp;'') ''&'' v;
          s2 = rxReplaceAll (litI ''&lt;'') ''<'' s1;
          s3 = rxReplaceAll (litI ''&gt;'') ''>'' s2;
          s4 = rxReplaceAll (litI ''&quot;'') [CHR 0x22] s3;
          s5 = rxReplaceAll (Alt (litI ''&#39;'') (litI ''&apos;'')) [CHR 0x27] s4
      in case concatResults
                (map (\<lambda>seg. case seg of
                        Inl c \<Rightarrow> Inr [c]
                      | Inr m \<Rightarrow> fromCodePointRef 16 (butlast (drop 3 m)) m)
                     (rxSegments (seqs [lit ''&#'', litI ''x'', plus (One isHexDigit), lit '';'']) None s5)) of
           Inl e \<Rightarrow> Inl e
         | Inr s6 \<Rightarrow>
             concatResults
                (map (\<lambda>seg. case seg of
                        Inl c \<Rightarrow> Inr [c]
                      | Inr m \<Rightarrow> fromCodePointRef 10 (butlast (drop 2 m)) m)
                     (rxSegments (seqs [lit ''&#'', plus (One isDigit), lit '';'']) None s6)))"

definition normalizeAbstractText :: "string \<Rightarrow> exn + string" where
  "normalizeAbstractText v =
     (case decodeHtmlEntities (stripHtmlTags v) of
        Inl e \<Rightarrow> Inl e
      | Inr d \<Rightarrow>
          (let cleaned = cleanText d in
           if cleaned = [] then Inr [] else Inr (trim (rxReplace abstractLabelRx [] cleaned))))"

primrec mapResults :: "('a \<Rightarrow> exn + 'b) \<Rightarrow> 'a list \<Rightarrow> exn + 'b list" where
  "mapResults f [] = Inr []"
| "mapResults f (x # xs) =
     (case f x of Inl e \<Rightarrow> Inl e
      | Inr y \<Rightarrow> (case mapResults f xs of Inl e \<Rightarrow> Inl e | Inr ys \<Rightarrow> Inr (y # ys)))"

definition lengthCmp :: "string \<Rightarrow> string \<Rightarrow> int" where
  "lengthCmp a b = int (length b) - int (length a)"

definition chooseBestAbstract :: "string list \<Rightarrow> exn + string" where
  "chooseBestAbstract candidates =
     (case mapResults normalizeAbstractText candidates of
        Inl e \<Rightarrow> Inl e
      | Inr items \<Rightarrow>
          (let normalized = uniqueStrings items;
               filtered = filter (\<lambda>text. 80 \<le> length text) normalized
           in if filtered = [] then Inr (case normalized of [] \<Rightarrow> [] | x # _ \<Rightarrow> x)
              else
                (let scored = sortBy lengthCmp (filter (\<lambda>text. \<not> rxTest boilerplateRx text) filtered)
                 in Inr (case scored of x # _ \<Rightarrow> x | [] \<Rightarrow> hd filtered))))"

section \<open>The per-URL state machine\<close>

text \<open>
  The outside world is a record of oracles. Each call of an oracle is an effect, appended
  to the trace of the world; the oracle is asked with the number of effects so far, so
  that the same call may answer differently on a later attempt. An oracle that throws
  answers \<open>Inl\<close> (or \<open>Some\<close> for a call without a result).

  \<^item> \<open>fetchTracked\<close>: the redirect-following \<open>fetch\<close> of \<open>resolveTrackedUrl\<close>, giving
    \<open>response.url\<close> and the status.
  \<^item> \<open>curlFetch\<close>: \<open>fetchHtmlWithCurl\<close>, then \<open>detectChallengeInHtml\<close> and
    \<open>extractMetadataFromScienceDirectHtml\<close> on the page it got.
  \<^item> \<open>getContext\<close>, \<open>newPage\<close>, \<open>pageGoto\<close>, \<open>pageUrl\<close>, \<open>pageClose\<close>: the browser.
  \<^item> \<open>challengeAfterWait\<close>: \<open>waitForChallengeClear\<close>, whether a challenge is still
    shown when the wait ends.
  \<^item> \<open>pageEvaluate\<close>: the \<open>page.evaluate\<close> of \<open>extractMetadata\<close>.
\<close>

datatype effect =
    TrackingFetch string
  | CurlFetch string
  | GetContext
  | NewPage
  | Goto string
  | ChallengeWait
  | PageEvaluate
  | PageClose
  | Sleep nat

record curlFetched =
  cf_effectiveUrl :: string
  cf_isChallenge :: bool
  cf_extracted :: "exn + extracted"

record env =
  fetchTracked :: "nat \<Rightarrow> string \<Rightarrow> exn + string \<times> nat"
  curlFetch :: "nat \<Rightarrow> string \<Rightarrow> exn + curlFetched"
  getContext :: "nat \<Rightarrow> exn option"
  newPage :: "nat \<Rightarrow> exn option"
  pageGoto :: "nat \<Rightarrow> string \<Rightarrow> exn option"
  challengeAfterWait :: "nat \<Rightarrow> exn + bool"
  pageUrl :: "nat \<Rightarrow> string"
  pageEvaluate :: "nat \<Rightarrow> exn + extracted"
  pageClose :: "nat \<Rightarrow> exn option"

record world =
  trace :: "effect list"
  seenFinalUrls :: "string list option"

record args =
  maxRetries :: nat
  skipTrackingResolution :: bool
  sciencedirectMode :: string

datatype outcome = Returned bool vrecord | Threw exn

definition emit :: "effect \<Rightarrow> world \<Rightarrow> world" where
  "emit e w = w\<lparr>trace := trace w @ [e]\<rparr>"

definition tick :: "world \<Rightarrow> nat" where
  "tick w = length (trace w)"

definition exnName :: "exn \<Rightarrow> string" where
  "exnName e = (case e of URIError \<Rightarrow> ''URIError'' | OutOfAlphabet \<Rightarrow> ''OutOfAlphabet''
                | JsError n m \<Rightarrow> orElse n ''Error'')"

definition exnMessage :: "exn \<Rightarrow> string" where
  "exnMessage e = (case e of URIError \<Rightarrow> ''URI malformed'' | OutOfAlphabet \<Rightarrow> []
                   | JsError n m \<Rightarrow> orElse m (orElse n ''Error''))"

definition challengeError :: "string \<Rightarrow> exn" where
  "challengeError message = JsError ''ChallengeError'' message"

definition buildVerificationFailureRecord :: "string \<Rightarrow> policy \<Rightarrow> errorEntry list \<Rightarrow> exn + vrecord" where
  "buildVerificationFailureRecord inputUrl pol errs =
     (case normalizeDoi inputUrl of
        Inl e \<Rightarrow> Inl e
      | Inr doi \<Rightarrow>
          Inr \<lparr>sourceUrl = inputUrl, finalUrl = inputUrl, title = ''[Not verified]'', authors = [],
               year = ''[Not verified]'', journal = ''[Not verified]'', volume = ''[Not verified]'',
               issue = ''[Not verified]'', pageRange = ''[Not verified]'',
               publishedOnline = ''[Not verified]'', doiUrl = ensureField doi,
               abstract = ''[Not verified]'', citation = ''[Not verified]'',
               missingFields = [''title'', ''journal'', ''year'', ''abstract'', ''citation''],
               status = ''not_verified'', articleTypeRaw = ''[Not verified]'',
               articleType = ''[Not verified]'', ingestDecision = ''not_verified'',
               ingestReason = ''verification_failed'', articleTypeClassificationSource = ''none'',
               articleTypeMatchedHint = [], policyName = orElse (name pol) ''default'',
               policyProtected = protected pol, resolvedUrl = [], errors = errs\<rparr>)"

definition buildExcludedLinkRecord :: "string \<Rightarrow> string \<Rightarrow> policy \<Rightarrow> string \<Rightarrow> exn + vrecord" where
  "buildExcludedLinkRecord inputUrl final pol reason =
     (case firstDoi (normalizeDoi final) (normalizeDoi inputUrl) of
        Inl e \<Rightarrow> Inl e
      | Inr maybeDoi \<Rightarrow>
          Inr \<lparr>sourceUrl = inputUrl, finalUrl = orElse final inputUrl, title = ''[Not verified]'',
               authors = [], year = ''[Not verified]'', journal = ''[Not verified]'',
               volume = ''[Not verified]'', issue = ''[Not verified]'', pageRange = ''[Not verified]'',
               publishedOnline = ''[Not verified]'', doiUrl = ensureField maybeDoi,
               abstract = ''[Not verified]'', citation = ''[Not verified]'',
               missingFields = [''title'', ''journal'', ''year'', ''abstract'', ''citation''],
               status = ''excluded'', articleTypeRaw = ''non-article-link'',
               articleType = ''announcement'', ingestDecision = ''exclude'',
               ingestReason = orElse reason ''non_article_link'',
               articleTypeClassificationSource = ''none'', articleTypeMatchedHint = [],
               policyName = orElse (name pol) ''default'', policyProtected = protected pol,
               resolvedUrl = orElse final inputUrl, errors = []\<rparr>)"

definition isScienceDirectLikeUrl :: "urlApi \<Rightarrow> string \<Rightarrow> bool" where
  "isScienceDirectLikeUrl U rawUrl \<longleftrightarrow>
     rxTest (hostRxI ''sciencedirect.com'') (hostForUrl U rawUrl) \<or> rxTest (litI ''10.1016/'') rawUrl"

definition isAlnum :: "char \<Rightarrow> bool" where
  "isAlnum c \<longleftrightarrow> isAlpha c \<or> isDigit c"

text \<open>\<open>pathname.match(/\/science\/article\/pii\/([A-Za-z0-9]+)/i)\<close>: the group is the
  matched text after the 21 code units of \<open>/science/article/pii/\<close>.\<close>

definition scienceDirectPiiFromUrl :: "urlApi \<Rightarrow> string \<Rightarrow> string" where
  "scienceDirectPiiFromUrl U rawUrl =
     (case newURL U rawUrl of
        None \<Rightarrow> []
      | Some parsed \<Rightarrow>
          (case rxMatch (seqs [litI ''/science/article/pii/'', plus (One isAlnum)]) (pathname parsed) of
             Some m \<Rightarrow> drop 21 m
           | None \<Rightarrow>
               (let fromQuery = orElse (case map_of (searchParams parsed) ''_piikey'' of Some v \<Rightarrow> v | None \<Rightarrow> [])
                                       (case map_of (searchParams parsed) ''pii'' of Some v \<Rightarrow> v | None \<Rightarrow> [])
                in if fromQuery \<noteq> [] then filter isAlnum fromQuery else [])))"

definition canonicalScienceDirectArticleUrl :: "urlApi \<Rightarrow> string \<Rightarrow> string" where
  "canonicalScienceDirectArticleUrl U rawUrl =
     (let pii = scienceDirectPiiFromUrl U rawUrl in
      if pii = [] then rawUrl else ''https://www.sciencedirect.com/science/article/pii/'' @ pii)"

record resolved =
  r_resolvedUrl :: string
  r_usedTrackingResolution :: bool
  r_trackingResolutionError :: string

definition resolveTrackedUrl :: "env \<Rightarrow> urlApi \<Rightarrow> args \<Rightarrow> string \<Rightarrow> world \<Rightarrow> resolved \<times> world" where
  "resolveTrackedUrl E U a inputUrl w =
     (if skipTrackingResolution a \<or> \<not> isTrackingUrl U inputUrl then
        (\<lparr>r_resolvedUrl = inputUrl, r_usedTrackingResolution = False, r_trackingResolutionError = []\<rparr>, w)
      else
        (let w' = emit (TrackingFetch inputUrl) w in
         case fetchTracked E (tick w) inputUrl of
           Inl e \<Rightarrow>
             (\<lparr>r_resolvedUrl = inputUrl, r_usedTrackingResolution = True,
               r_trackingResolutionError = exnMessage e\<rparr>, w')
         | Inr (responseUrl, st) \<Rightarrow>
             (let resolvedUrl = maybeCanonicalArticleUrl U (orElse responseUrl inputUrl);
                  resolvedHost = hostForUrl U resolvedUrl;
                  resolvedPath = (case newURL U resolvedUrl of Some u \<Rightarrow> pathname u | None \<Rightarrow> [])
              in if rxTest (hostRxI ''el.wiley.com'') (hostForUrl U inputUrl)
                    \<and> rxTest (hostRxI ''onlinelibrary.wiley.com'') resolvedHost
                    \<and> rxTest (seqs [Bol, litI ''/action/cookieAbsent'', Eol]) resolvedPath
                 then (\<lparr>r_resolvedUrl = inputUrl, r_usedTrackingResolution = True,
                        r_trackingResolutionError =
                          ''Tracker pre-resolution landed on Wiley cookieAbsent endpoint; ignoring and falling back to browser navigation.''\<rparr>, w')
                 else (\<lparr>r_resolvedUrl = resolvedUrl, r_usedTrackingResolution = True,
                        r_trackingResolutionError = []\<rparr>, w'))))"

definition errorOf :: "string \<Rightarrow> nat \<Rightarrow> string \<Rightarrow> string \<Rightarrow> exn \<Rightarrow> errorEntry" where
  "errorOf method attempt rawTargetUrl targetUrl e =
     \<lparr>e_method = method, e_attempt = attempt, e_rawTargetUrl = rawTargetUrl, e_targetUrl = targetUrl,
      e_errorName = exnName e, e_message = exnMessage e\<rparr>"

text \<open>\<open>verifyScienceDirectViaCurl\<close>: the loop over the fetch targets. The result is the
  record of the first target that yields one, or the errors of all targets.\<close>

primrec curlTargets :: "env \<Rightarrow> urlApi \<Rightarrow> string \<Rightarrow> policy \<Rightarrow> string list \<Rightarrow> exn list \<Rightarrow> world
    \<Rightarrow> (exn list + vrecord) \<times> world" where
  "curlTargets E U srcUrl pol [] errs w = (Inl errs, w)"
| "curlTargets E U srcUrl pol (fetchTarget # rest) errs w =
     (let w' = emit (CurlFetch fetchTarget) w;
          attempt =
            (case curlFetch E (tick w) fetchTarget of
               Inl e \<Rightarrow> Inl e
             | Inr fetched \<Rightarrow>
                 if cf_isChallenge fetched
                 then Inl (challengeError ''ScienceDirect challenge page detected (curl path)'')
                 else (case cf_extracted fetched of
                         Inl e \<Rightarrow> Inl e
                       | Inr ex \<Rightarrow>
                           (case buildRecordFromExtracted U ex srcUrl (name pol) of
                              Inl e \<Rightarrow> Inl e
                            | Inr r \<Rightarrow>
                                Inr (r\<lparr>policyName := name pol, policyProtected := protected pol,
                                        resolvedUrl := orElse (cf_effectiveUrl fetched) fetchTarget\<rparr>))))
      in case attempt of
           Inr r \<Rightarrow> (Inr r, w')
         | Inl e \<Rightarrow> curlTargets E U srcUrl pol rest (errs @ [e]) w')"

definition verifyScienceDirectViaCurl :: "env \<Rightarrow> urlApi \<Rightarrow> string \<Rightarrow> string \<Rightarrow> policy \<Rightarrow> world
    \<Rightarrow> (exn list + vrecord) \<times> world" where
  "verifyScienceDirectViaCurl E U srcUrl targetUrl pol w =
     curlTargets E U srcUrl pol
       (uniqueStrings [canonicalScienceDirectArticleUrl U targetUrl, targetUrl,
                       canonicalScienceDirectArticleUrl U srcUrl, srcUrl]) [] w"

text \<open>The state between two targets of one attempt: the errors so far, the last policy
  and the world.\<close>

record loopState =
  ls_errors :: "errorEntry list"
  ls_lastPolicy :: policy
  ls_world :: world

datatype step = Done outcome world | Continue loopState

definition finish :: "exn + vrecord \<Rightarrow> world \<Rightarrow> step" where
  "finish r w = (case r of Inl e \<Rightarrow> Done (Threw e) w | Inr v \<Rightarrow> Done (Returned True v) w)"

text \<open>The \<open>catch\<close> block of the browser part: the error is recorded, the page is closed;
  an exception of \<open>page.close()\<close> there leaves the function.\<close>

definition catchBrowser :: "env \<Rightarrow> nat \<Rightarrow> string \<Rightarrow> string \<Rightarrow> exn \<Rightarrow> loopState \<Rightarrow> step" where
  "catchBrowser E attempt rawTargetUrl targetUrl e st =
     (let w = ls_world st;
          w' = emit PageClose w;
          st' = st\<lparr>ls_errors := ls_errors st @ [errorOf [] attempt rawTargetUrl targetUrl e], ls_world := w'\<rparr>
      in case pageClose E (tick w) of
           Some e' \<Rightarrow> Done (Threw e') w'
         | None \<Rightarrow> Continue st')"

text \<open>The \<open>try\<close> block of the browser part, from \<open>page.goto\<close> on. The wait for
  network idleness has a \<open>try\<close> of its own and changes nothing, so it is no step here.\<close>

definition browserTry :: "env \<Rightarrow> urlApi \<Rightarrow> string \<Rightarrow> nat \<Rightarrow> string \<Rightarrow> string \<Rightarrow> loopState \<Rightarrow> step" where
  "browserTry E U inputUrl attempt rawTargetUrl targetUrl st0 =
     (let w0 = ls_world st0; w1 = emit (Goto targetUrl) w0 in
      case pageGoto E (tick w0) targetUrl of
        Some e \<Rightarrow> catchBrowser E attempt rawTargetUrl targetUrl e (st0\<lparr>ls_world := w1\<rparr>)
      | None \<Rightarrow>
         (let w2 = emit ChallengeWait w1 in
          case challengeAfterWait E (tick w1) of
            Inl e \<Rightarrow> catchBrowser E attempt rawTargetUrl targetUrl e (st0\<lparr>ls_world := w2\<rparr>)
          | Inr True \<Rightarrow>
              catchBrowser E attempt rawTargetUrl targetUrl (challengeError ''Challenge page detected'')
                (st0\<lparr>ls_world := w2\<rparr>)
          | Inr False \<Rightarrow>
             (let navigatedUrl = maybeCanonicalArticleUrl U (orElse (pageUrl E (tick w2)) targetUrl);
                  navOrTarget = orElse navigatedUrl targetUrl;
                  effectivePolicy = policyForUrl U navOrTarget;
                  st1 = st0\<lparr>ls_lastPolicy := effectivePolicy, ls_world := w2\<rparr>
              in if shouldSkipDuplicateFinalUrl U (seenFinalUrls w2) navOrTarget inputUrl then
                   (case buildExcludedLinkRecord inputUrl navOrTarget effectivePolicy
                           ''duplicate_final_url_in_batch'' of
                      Inl e \<Rightarrow> catchBrowser E attempt rawTargetUrl targetUrl e st1
                    | Inr r \<Rightarrow>
                        (case pageClose E (tick w2) of
                           Some e \<Rightarrow> catchBrowser E attempt rawTargetUrl targetUrl e
                                       (st1\<lparr>ls_world := emit PageClose w2\<rparr>)
                         | None \<Rightarrow> Done (Returned True r) (emit PageClose w2)))
                 else
                   (case classifyKnownNonArticleLink U navigatedUrl of
                      Some reason \<Rightarrow>
                        (let w3 = w2\<lparr>seenFinalUrls := rememberFinalUrl U (seenFinalUrls w2) navOrTarget\<rparr>;
                             st2 = st1\<lparr>ls_world := w3\<rparr>
                         in case buildExcludedLinkRecord inputUrl navOrTarget effectivePolicy reason of
                              Inl e \<Rightarrow> catchBrowser E attempt rawTargetUrl targetUrl e st2
                            | Inr r \<Rightarrow>
                                (case pageClose E (tick w3) of
                                   Some e \<Rightarrow> catchBrowser E attempt rawTargetUrl targetUrl e
                                               (st2\<lparr>ls_world := emit PageClose w3\<rparr>)
                                 | None \<Rightarrow> Done (Returned True r) (emit PageClose w3)))
                    | None \<Rightarrow>
                        (let w3 = emit PageEvaluate w2; st2 = st1\<lparr>ls_world := w3\<rparr> in
                         case pageEvaluate E (tick w2) of
                           Inl e \<Rightarrow> catchBrowser E attempt rawTargetUrl targetUrl e st2
                         | Inr ex \<Rightarrow>
                             (case buildRecordFromExtracted U ex inputUrl (name effectivePolicy) of
                                Inl e \<Rightarrow> catchBrowser E attempt rawTargetUrl targetUrl e st2
                              | Inr r0 \<Rightarrow>
                                  (let r = r0\<lparr>policyName := name effectivePolicy,
                                               policyProtected := protected effectivePolicy,
                                               resolvedUrl := navOrTarget\<rparr>;
                                       w4 = w3\<lparr>seenFinalUrls :=
                                              rememberFinalUrl U (seenFinalUrls w3)
                                                (orElse (resolvedUrl r) (orElse (finalUrl r) navOrTarget))\<rparr>;
                                       st3 = st2\<lparr>ls_world := w4\<rparr>
                                   in case pageClose E (tick w4) of
                                        Some e \<Rightarrow> catchBrowser E attempt rawTargetUrl targetUrl e
                                                    (st3\<lparr>ls_world := emit PageClose w4\<rparr>)
                                      | None \<Rightarrow> Done (Returned True r) (emit PageClose w4))))))))"

text \<open>The browser part of one target: the context and the page are obtained outside the
  \<open>try\<close> block, so an exception of either leaves the function.\<close>

definition browserAttempt :: "env \<Rightarrow> urlApi \<Rightarrow> string \<Rightarrow> nat \<Rightarrow> string \<Rightarrow> string \<Rightarrow> loopState \<Rightarrow> step" where
  "browserAttempt E U inputUrl attempt rawTargetUrl targetUrl st =
     (let w0 = ls_world st; w1 = emit GetContext w0 in
      case getContext E (tick w0) of
        Some e \<Rightarrow> Done (Threw e) w1
      | None \<Rightarrow>
          (let w2 = emit NewPage w1 in
           case newPage E (tick w1) of
             Some e \<Rightarrow> Done (Threw e) w2
           | None \<Rightarrow> browserTry E U inputUrl attempt rawTargetUrl targetUrl (st\<lparr>ls_world := w2\<rparr>)))"

text \<open>The ScienceDirect curl part of one target. \<open>None\<close>: go on to the browser part.\<close>

definition curlAttempt :: "env \<Rightarrow> urlApi \<Rightarrow> args \<Rightarrow> string \<Rightarrow> nat \<Rightarrow> string \<Rightarrow> string \<Rightarrow> policy
    \<Rightarrow> loopState \<Rightarrow> step" where
  "curlAttempt E U a inputUrl attempt rawTargetUrl targetUrl pol st =
     (case verifyScienceDirectViaCurl E U inputUrl targetUrl pol (ls_world st) of
        (Inr r, w) \<Rightarrow>
          if status r = ''verified'' \<or> sciencedirectMode a = ''curl'' \<or> ingestDecision r = ''exclude'' then
            (let final = orElse (resolvedUrl r) (orElse (finalUrl r) targetUrl) in
             if shouldSkipDuplicateFinalUrl U (seenFinalUrls w) final inputUrl
             then finish (buildExcludedLinkRecord inputUrl final (policyForUrl U final)
                            ''duplicate_final_url_in_batch'') w
             else Done (Returned True r) (w\<lparr>seenFinalUrls := rememberFinalUrl U (seenFinalUrls w) final\<rparr>))
          else
            Continue (st\<lparr>ls_errors := ls_errors st @
                           [\<lparr>e_method = ''curl_sciencedirect'', e_attempt = attempt,
                             e_rawTargetUrl = rawTargetUrl, e_targetUrl = targetUrl,
                             e_errorName = ''IncompleteRecord'',
                             e_message = ''ScienceDirect curl path returned partial metadata; falling back to browser extraction.''\<rparr>],
                         ls_world := w\<rparr>)
      | (Inl errs, w) \<Rightarrow>
          Continue (st\<lparr>ls_errors := ls_errors st @
                         map (\<lambda>e. \<lparr>e_method = ''curl_sciencedirect'', e_attempt = attempt,
                                    e_rawTargetUrl = rawTargetUrl, e_targetUrl = targetUrl,
                                    e_errorName = exnName e,
                                    e_message = orElse (exnMessage e) ''ScienceDirect curl extraction failed''\<rparr>)
                             errs,
                       ls_world := w\<rparr>))"

text \<open>The body of the inner loop: one target of one attempt.\<close>

definition processTarget :: "env \<Rightarrow> urlApi \<Rightarrow> args \<Rightarrow> string \<Rightarrow> nat \<Rightarrow> string \<Rightarrow> loopState \<Rightarrow> step" where
  "processTarget E U a inputUrl attempt rawTargetUrl st =
     (case classifyUnsafePreNavigationLink U rawTargetUrl [] of
        Some unsafeInputReason \<Rightarrow>
          finish (buildExcludedLinkRecord inputUrl rawTargetUrl (policyForUrl U rawTargetUrl)
                    unsafeInputReason) (ls_world st)
      | None \<Rightarrow>
         (case resolveTrackedUrl E U a rawTargetUrl (ls_world st) of
            (res, w1) \<Rightarrow>
              (let targetUrl = r_resolvedUrl res;
                   pol = policyForUrl U targetUrl;
                   st1 = st\<lparr>ls_lastPolicy := pol, ls_world := w1\<rparr>
               in case classifyUnsafePreNavigationLink U targetUrl [] of
                    Some unsafeResolvedReason \<Rightarrow>
                      finish (buildExcludedLinkRecord inputUrl targetUrl pol unsafeResolvedReason)
                        (w1\<lparr>seenFinalUrls := rememberFinalUrl U (seenFinalUrls w1) targetUrl\<rparr>)
                  | None \<Rightarrow>
                      if shouldSkipDuplicateFinalUrl U (seenFinalUrls w1) targetUrl inputUrl then
                        finish (buildExcludedLinkRecord inputUrl targetUrl pol
                                  ''duplicate_final_url_in_batch'') w1
                      else
                        (case classifyKnownNonArticleLink U targetUrl of
                           Some nonArticleReason \<Rightarrow>
                             finish (buildExcludedLinkRecord inputUrl targetUrl pol nonArticleReason)
                               (w1\<lparr>seenFinalUrls := rememberFinalUrl U (seenFinalUrls w1) targetUrl\<rparr>)
                         | None \<Rightarrow>
                             (let shouldTryScienceDirectCurl =
                                    (sciencedirectMode a \<noteq> ''browser''
                                     \<and> (name pol = ''sciencedirect''
                                          \<or> isScienceDirectLikeUrl U targetUrl
                                          \<or> isScienceDirectLikeUrl U rawTargetUrl
                                          \<or> isScienceDirectLikeUrl U inputUrl))
                              in if shouldTryScienceDirectCurl then
                                   (case curlAttempt E U a inputUrl attempt rawTargetUrl targetUrl pol st1 of
                                      Done out w \<Rightarrow> Done out w
                                    | Continue st2 \<Rightarrow>
                                        if sciencedirectMode a = ''curl'' then Continue st2
                                        else browserAttempt E U inputUrl attempt rawTargetUrl targetUrl st2)
                                 else browserAttempt E U inputUrl attempt rawTargetUrl targetUrl st1)))))"

primrec targetsLoop :: "env \<Rightarrow> urlApi \<Rightarrow> args \<Rightarrow> string \<Rightarrow> nat \<Rightarrow> string list \<Rightarrow> loopState \<Rightarrow> step" where
  "targetsLoop E U a inputUrl attempt [] st = Continue st"
| "targetsLoop E U a inputUrl attempt (rawTargetUrl # rest) st =
     (case processTarget E U a inputUrl attempt rawTargetUrl st of
        Done out w \<Rightarrow> Done out w
      | Continue st' \<Rightarrow> targetsLoop E U a inputUrl attempt rest st')"

definition backoffMs :: "nat list" where
  "backoffMs = [2000, 5000, 10000]"

text \<open>The outer loop: \<open>remaining\<close> attempts are left, the next one is number \<open>attempt\<close>.
  When none is left the failure record is returned.\<close>

primrec attemptsLoop :: "env \<Rightarrow> urlApi \<Rightarrow> args \<Rightarrow> string \<Rightarrow> string list \<Rightarrow> nat \<Rightarrow> nat \<Rightarrow> loopState
    \<Rightarrow> outcome \<times> world" where
  "attemptsLoop E U a inputUrl targets 0 attempt st =
     (case buildVerificationFailureRecord inputUrl (ls_lastPolicy st) (ls_errors st) of
        Inl e \<Rightarrow> (Threw e, ls_world st)
      | Inr r \<Rightarrow> (Returned False r, ls_world st))"
| "attemptsLoop E U a inputUrl targets (Suc remaining) attempt st =
     (case targetsLoop E U a inputUrl attempt targets st of
        Done out w \<Rightarrow> (out, w)
      | Continue st' \<Rightarrow>
          attemptsLoop E U a inputUrl targets remaining (Suc attempt)
            (st'\<lparr>ls_world := emit (Sleep (backoffMs ! min (attempt - 1) (length backoffMs - 1)))
                                  (ls_world st')\<rparr>))"

definition verifySingleUrl :: "env \<Rightarrow> urlApi \<Rightarrow> args \<Rightarrow> string \<Rightarrow> world \<Rightarrow> outcome \<times> world" where
  "verifySingleUrl E U a inputUrl w =
     (case normalizeDoi inputUrl of
        Inl e \<Rightarrow> (Threw e, w)
      | Inr canonical \<Rightarrow>
          attemptsLoop E U a inputUrl (uniqueStrings [inputUrl, canonical]) (maxRetries a) 1
            \<lparr>ls_errors = [], ls_lastPolicy = policyForUrl U inputUrl, ls_world = w\<rparr>)"

text \<open>A verification pass with one worker (\<open>--concurrency 1\<close>): the URLs one after the
  other, sharing the set of seen final URLs. An exception of one URL rejects the pass.\<close>

primrec runVerificationPass :: "env \<Rightarrow> urlApi \<Rightarrow> args \<Rightarrow> string list \<Rightarrow> world
    \<Rightarrow> (exn + (bool \<times> vrecord) list) \<times> world" where
  "runVerificationPass E U a [] w = (Inr [], w)"
| "runVerificationPass E U a (url # urls) w =
     (case verifySingleUrl E U a url w of
        (Threw e, w') \<Rightarrow> (Inl e, w')
      | (Returned ok r, w') \<Rightarrow>
          (case runVerificationPass E U a urls w' of
             (Inl e, w'') \<Rightarrow> (Inl e, w'')
           | (Inr rs, w'') \<Rightarrow> (Inr ((ok, r) # rs), w'')))"

section \<open>Sample inputs\<close>

text \<open>
  A small stand-in for the runtime's URL parser, to run the functions on explicit URLs.
  It reads absolute URLs of the shape \<open>scheme://host/path?query#fragment\<close> (no
  credentials, ports, percent-encoding or dot segments) and \<open>scheme:rest\<close>.
\<close>

definition isUrlDelim :: "char \<Rightarrow> bool" where
  "isUrlDelim c \<longleftrightarrow> c \<in> set ''/?#''"

definition simpleParams :: "string \<Rightarrow> (string \<times> string) list" where
  "simpleParams q =
     map (\<lambda>kv. (takeWhile (\<lambda>c. c \<noteq> CHR ''='') kv, drop 1 (dropWhile (\<lambda>c. c \<noteq> CHR ''='') kv)))
         (nonEmpty (splitOn CHR ''&'' q))"

definition simpleNewURL :: "string \<Rightarrow> url option" where
  "simpleNewURL s =
     (let scheme = toLowerCase (takeWhile (\<lambda>c. c \<noteq> CHR '':'') s);
          after = dropWhile (\<lambda>c. c \<noteq> CHR '':'') s
      in if scheme = [] \<or> \<not> list_all isAlnum scheme \<or> after = [] then None
         else if take 3 after = ''://'' then
           (let rest = drop 3 after;
                auth = toLowerCase (takeWhile (\<lambda>c. \<not> isUrlDelim c) rest);
                r1 = dropWhile (\<lambda>c. \<not> isUrlDelim c) rest;
                path = takeWhile (\<lambda>c. c \<noteq> CHR ''?'' \<and> c \<noteq> CHR ''#'') r1;
                r2 = dropWhile (\<lambda>c. c \<noteq> CHR ''?'' \<and> c \<noteq> CHR ''#'') r1;
                query = (if take 1 r2 = ''?'' then takeWhile (\<lambda>c. c \<noteq> CHR ''#'') (drop 1 r2) else []);
                frag = dropWhile (\<lambda>c. c \<noteq> CHR ''#'') r2;
                web = (scheme = ''http'' \<or> scheme = ''https'')
            in if web \<and> auth = [] then None
               else Some \<lparr>protocol = scheme @ '':'', hostname = auth,
                          origin = (if web then scheme @ ''://'' @ auth else ''null''),
                          pathname = orElse path ''/'', searchParams = simpleParams query,
                          hash = (if frag = ''#'' then [] else frag)\<rparr>)
         else Some \<lparr>protocol = scheme @ '':'', hostname = [], origin = ''null'',
                    pathname = takeWhile (\<lambda>c. c \<noteq> CHR ''?'' \<and> c \<noteq> CHR ''#'') (drop 1 after),
                    searchParams = [], hash = []\<rparr>)"

definition simpleUrlApi :: urlApi where
  "simpleUrlApi =
     \<lparr>newURL = simpleNewURL,
      paramsToString = (\<lambda>ps. joinWith ''&'' (map (\<lambda>(k, v). k @ ''='' @ v) ps))\<rparr>"

text \<open>A page as the browser hands it over, and worlds in which every page is that page,
  or in which nothing can be reached.\<close>

definition samplePage :: extracted where
  "samplePage =
     \<lparr>x_title = ''Markets and Firms'', x_authors = [''Ann B Lee'', ''Bo Chen''],
      x_journal = ''Journal of Things'', x_publicationDate = ''2026/01/05'', x_volume = ''12'',
      x_issue = ''3'', x_pageRange = ''1-20'', x_doiMeta = ''10.1234/jot.2026.1'',
      x_abstractText = ''We study things.'', x_articleTypeMetaHint = Some ''Research Article'',
      x_articleTypeDomHint = Some [], x_articleTypeJsonLdHint = Some [],
      x_articleTypeHint = ''Research Article'', x_finalUrl = ''https://pub.example.org/art/1'',
      x_pageTitle = ''Markets and Firms''\<rparr>"

definition offline :: exn where
  "offline = JsError ''Error'' ''net::ERR_INTERNET_DISCONNECTED''"

definition onlineEnv :: env where
  "onlineEnv =
     \<lparr>fetchTracked = (\<lambda>t u. Inr (u, 200)),
      curlFetch = (\<lambda>t u. Inr \<lparr>cf_effectiveUrl = u, cf_isChallenge = False, cf_extracted = Inr samplePage\<rparr>),
      getContext = (\<lambda>t. None), newPage = (\<lambda>t. None), pageGoto = (\<lambda>t u. None),
      challengeAfterWait = (\<lambda>t. Inr False), pageUrl = (\<lambda>t. ''https://pub.example.org/art/1''),
      pageEvaluate = (\<lambda>t. Inr samplePage), pageClose = (\<lambda>t. None)\<rparr>"


definition offlineEnv :: env where
  "offlineEnv =
     \<lparr>fetchTracked = (\<lambda>t u. Inl offline), curlFetch = (\<lambda>t u. Inl offline),
      getContext = (\<lambda>t. None), newPage = (\<lambda>t. None), pageGoto = (\<lambda>t u. Some offline),
      challengeAfterWait = (\<lambda>t. Inl offline), pageUrl = (\<lambda>t. []),
      pageEvaluate = (\<lambda>t. Inl offline), pageClose = (\<lambda>t. None)\<rparr>"

definition defaultArgs :: args where
  "defaultArgs = \<lparr>maxRetries = 3, skipTrackingResolution = False, sciencedirectMode = ''auto''\<rparr>"


definition freshWorld :: world where
  "freshWorld = \<lparr>trace = [], seenFinalUrls = Some []\<rparr>"

section \<open>Auxiliary notions for the proofs\<close>



section \<open>Character classes by bits\<close>

text \<open>The character classes and case maps, restated on the eight bits of a code unit
  (least significant first). The evaluator uses these equations.\<close>

lemma isDigit_bits [code]:
  "isDigit (Char b0 b1 b2 b3 b4 b5 b6 b7) \<longleftrightarrow>
     b4 \<and> b5 \<and> \<not> b6 \<and> \<not> b7 \<and> \<not> (b3 \<and> (b2 \<or> b1))"
  by (cases b0; cases b1; cases b2; cases b3; cases b4; cases b5; cases b6; cases b7;
      simp add: isDigit_def)

lemma isUpperAZ_bits [code]:
  "isUpperAZ (Char b0 b1 b2 b3 b4 b5 b6 b7) \<longleftrightarrow>
     \<not> b7 \<and> b6 \<and> \<not> b5 \<and> (b0 \<or> b1 \<or> b2 \<or> b3 \<or> b4) \<and> \<not> (b4 \<and> b3 \<and> (b2 \<or> (b1 \<and> b0)))"
  by (cases b0; cases b1; cases b2; cases b3; cases b4; cases b5; cases b6; cases b7;
      simp add: isUpperAZ_def)

lemma isLowerAZ_bits [code]:
  "isLowerAZ (Char b0 b1 b2 b3 b4 b5 b6 b7) \<longleftrightarrow>
     \<not> b7 \<and> b6 \<and> b5 \<and> (b0 \<or> b1 \<or> b2 \<or> b3 \<or> b4) \<and> \<not> (b4 \<and> b3 \<and> (b2 \<or> (b1 \<and> b0)))"
  by (cases b0; cases b1; cases b2; cases b3; cases b4; cases b5; cases b6; cases b7;
      simp add: isLowerAZ_def)

lemma isSpace_bits [code]:
  "isSpace (Char b0 b1 b2 b3 b4 b5 b6 b7) \<longleftrightarrow>
     (\<not> b4 \<and> \<not> b5 \<and> \<not> b6 \<and> \<not> b7 \<and> b3 \<and> \<not> (b2 \<and> b1) \<and> (b2 \<or> b1 \<or> b0))
     \<or> (\<not> b0 \<and> \<not> b1 \<and> \<not> b2 \<and> \<not> b3 \<and> \<not> b4 \<and> b5 \<and> \<not> b6)"
  by (cases b0; cases b1; cases b2; cases b3; cases b4; cases b5; cases b6; cases b7;
      simp add: isSpace_def whiteSpace_def)

lemma toLowerChar_bits [code]:
  "toLowerChar (Char b0 b1 b2 b3 b4 b5 b6 b7) =
     (if \<not> b5 \<and> b6 \<and>
         ((\<not> b7 \<and> (b0 \<or> b1 \<or> b2 \<or> b3 \<or> b4) \<and> \<not> (b4 \<and> b3 \<and> (b2 \<or> (b1 \<and> b0))))
          \<or> (b7 \<and> \<not> (b0 \<and> b1 \<and> b2 \<and> b4)))
      then Char b0 b1 b2 b3 b4 True b6 b7 else Char b0 b1 b2 b3 b4 b5 b6 b7)"
  by (cases b0; cases b1; cases b2; cases b3; cases b4; cases b5; cases b6; cases b7;
      simp add: toLowerChar_def upperLatin_def lowerLatin_def)

lemma toUpperChar_bits [code]:
  "toUpperChar (Char b0 b1 b2 b3 b4 b5 b6 b7) =
     (if \<not> b7 \<and> b6 \<and> b5 \<and> (b0 \<or> b1 \<or> b2 \<or> b3 \<or> b4) \<and> \<not> (b4 \<and> b3 \<and> (b2 \<or> (b1 \<and> b0)))
      then Char b0 b1 b2 b3 b4 False b6 b7 else Char b0 b1 b2 b3 b4 b5 b6 b7)"
  by (cases b0; cases b1; cases b2; cases b3; cases b4; cases b5; cases b6; cases b7;
      simp add: toUpperChar_def)


section \<open>Every record the state machine returns comes from a record builder\<close>












text \<open>The first target of every attempt is the input URL itself.\<close>

lemma uniqueStrings_first:
  assumes "cleanText u = u" "u \<noteq> []"
  shows "uniqueStrings (u # vs) = u # uniqueFrom [u] vs"
  using assms by (simp add: uniqueStrings_def Let_def)


section \<open>Claim C1: the required-field gate\<close>














section \<open>Claim C2: run-scoped deduplication\<close>






section \<open>Claim C5: raw-type precedence\<close>

lemma hintKey_inj:
  assumes "CHR 0x00 \<notin> set l1" "CHR 0x00 \<notin> set l2" "hintKey l1 v1 = hintKey l2 v2"
  shows "l1 = l2 \<and> v1 = v2"
proof -
  have t: "takeWhile (\<lambda>c. c \<noteq> CHR 0x00) (l @ CHR 0x00 # v) = l" if "CHR 0x00 \<notin> set l" for l v
    using that by (induction l) auto
  from assms(3) have "takeWhile (\<lambda>c. c \<noteq> CHR 0x00) (l1 @ CHR 0x00 # v1)
                    = takeWhile (\<lambda>c. c \<noteq> CHR 0x00) (l2 @ CHR 0x00 # v2)"
    by (simp add: hintKey_def)
  then have "l1 = l2" using t[OF assms(1)] t[OF assms(2)] by simp
  with assms(3) show ?thesis by (simp add: hintKey_def)
qed

lemma normalizeArticleTypeValue_empty: "normalizeArticleTypeValue [] pol allow = ([], [])"
  by (simp add: normalizeArticleTypeValue_def cleanText_def toLowerCase_def)

lemma classifyOne_unmapped:
  "fst (normalizeArticleTypeValue v pol allow) = [] \<Longrightarrow> classifyOne pol (v, l) allow = None"
proof -
  assume a: "fst (normalizeArticleTypeValue v pol allow) = []"
  obtain m where nm: "normalizeArticleTypeValue v pol allow = ([], m)"
    using a by (cases "normalizeArticleTypeValue v pol allow") simp
  show ?thesis by (simp add: classifyOne_def nm)
qed

lemma classifyOne_research:
  assumes "fst (normalizeArticleTypeValue v pol allow) = ''research-article''"
  shows "\<exists>c. classifyOne pol (v, l) allow = Some c \<and> c_articleType c = ''research-article''
             \<and> c_ingestDecision c = ''include''"
proof -
  obtain m where nm: "normalizeArticleTypeValue v pol allow = (''research-article'', m)"
    using assms by (cases "normalizeArticleTypeValue v pol allow") simp
  show ?thesis
    by (simp add: classifyOne_def nm EXCLUDE_ARTICLE_TYPES_def INCLUDE_ARTICLE_TYPES_def)
qed

lemma collectHints_first:
  assumes "\<forall>g \<in> set pre. hintPresent g \<longrightarrow> fst (normalizeArticleTypeValue (hintValue g) pol True) = []"
      and "\<forall>g \<in> set (pre @ [h]). CHR 0x00 \<notin> set (hintLabel d g)"
      and "\<forall>k \<in> set seen. \<exists>l v. k = hintKey l v \<and> CHR 0x00 \<notin> set l
                \<and> fst (normalizeArticleTypeValue v pol True) = []"
      and "hintPresent h"
      and "fst (normalizeArticleTypeValue (hintValue h) pol True) = ''research-article''"
  shows "firstClassified pol True (fst (collectHints d seen (pre @ h # post)))
         = classifyOne pol (hintValue h, hintLabel d h) True"
  using assms(1,2,3)
proof (induction pre arbitrary: seen)
  case Nil
  have vne: "hintValue h \<noteq> []"
    using assms(5) normalizeArticleTypeValue_empty[of pol True] by auto
  have fresh: "hintKey (hintLabel d h) (hintValue h) \<notin> set seen"
  proof
    assume "hintKey (hintLabel d h) (hintValue h) \<in> set seen"
    with Nil(3) obtain l v where k: "hintKey (hintLabel d h) (hintValue h) = hintKey l v"
      and l: "CHR 0x00 \<notin> set l" and n: "fst (normalizeArticleTypeValue v pol True) = []"
      by blast
    from Nil(2) have "CHR 0x00 \<notin> set (hintLabel d h)" by simp
    from hintKey_inj[OF this l k] have "v = hintValue h" by simp
    with n assms(5) show False by simp
  qed
  obtain c where c: "classifyOne pol (hintValue h, hintLabel d h) True = Some c"
    using classifyOne_research[OF assms(5)] by blast
  show ?case
    using assms(4) vne fresh c by (simp add: Let_def split: prod.splits)
next
  case (Cons g pre)
  show ?case
  proof (cases "hintPresent g \<and> hintValue g \<noteq> [] \<and> hintKey (hintLabel d g) (hintValue g) \<notin> set seen")
    case False
    then have "collectHints d seen ((g # pre) @ h # post) = collectHints d seen (pre @ h # post)"
      by (auto simp: Let_def)
    moreover have "firstClassified pol True (fst (collectHints d seen (pre @ h # post)))
         = classifyOne pol (hintValue h, hintLabel d h) True"
      using Cons.IH[of seen] Cons.prems by simp
    ultimately show ?thesis by simp
  next
    case True
    let ?k = "hintKey (hintLabel d g) (hintValue g)"
    have n: "fst (normalizeArticleTypeValue (hintValue g) pol True) = []"
      using Cons.prems(1) True by simp
    have seen': "\<forall>k \<in> set (?k # seen). \<exists>l v. k = hintKey l v \<and> CHR 0x00 \<notin> set l
                \<and> fst (normalizeArticleTypeValue v pol True) = []"
      using Cons.prems(2,3) n by auto
    have ih: "firstClassified pol True (fst (collectHints d (?k # seen) (pre @ h # post)))
         = classifyOne pol (hintValue h, hintLabel d h) True"
      using Cons.IH[OF _ _ seen'] Cons.prems by simp
    have "fst (collectHints d seen ((g # pre) @ h # post))
          = (hintValue g, hintLabel d g) # fst (collectHints d (?k # seen) (pre @ h # post))"
      using True by (simp add: Let_def split: prod.splits)
    then show ?thesis
      using ih classifyOne_unmapped[OF n] by simp
  qed
qed

lemma normalizeArticleTypeValue_policy_free:
  "normalizeArticleTypeValue v pol False = normalizeArticleTypeValue v pol' False"
  by (simp add: normalizeArticleTypeValue_def)

lemma classifyOne_policy_free:
  "classifyOne pol h False = classifyOne pol' h False"
  unfolding classifyOne_def normalizeArticleTypeValue_policy_free[of _ pol pol'] ..

lemma firstClassified_policy_free:
  "firstClassified pol False hs = firstClassified pol' False hs"
proof (induction hs)
  case Nil
  show ?case by simp
next
  case (Cons h hs)
  show ?case
    unfolding firstClassified.simps classifyOne_policy_free[of pol h pol'] Cons.IH ..
qed

text \<open>
  C5, amended. Raw hints are tried in the order supplied. When the first raw hint that maps
  to any type maps to \<open>research-article\<close> (every earlier raw hint is absent, empty or
  unmapped, and no source label contains a NUL), the classifier returns
  \<open>research-article\<close> with decision \<open>include\<close>, whatever the semantic hints are. The
  per-policy overrides are never consulted for semantic hints: with no raw hint, the
  classification does not depend on the policy.
\<close>

theorem raw_type_precedence:
  assumes "rawTypeHints = pre @ h # post"
      and "\<forall>g \<in> set (pre @ [h]). CHR 0x00 \<notin> set (hintLabel ''publisher_raw_type'' g)"
      and "\<forall>g \<in> set pre. hintPresent g \<longrightarrow> fst (normalizeArticleTypeValue (hintValue g) pol True) = []"
      and "hintPresent h"
      and "fst (normalizeArticleTypeValue (hintValue h) pol True) = ''research-article''"
  shows "c_articleType (classifyArticleType pol rawTypeHints semanticHints) = ''research-article''
       \<and> c_ingestDecision (classifyArticleType pol rawTypeHints semanticHints) = ''include''
       \<and> classifyArticleType pol' [] semanticHints = classifyArticleType pol [] semanticHints"
proof -
  have f: "firstClassified pol True (fst (collectHints ''publisher_raw_type'' [] (pre @ h # post)))
           = classifyOne pol (hintValue h, hintLabel ''publisher_raw_type'' h) True"
    using collectHints_first[OF assms(3) assms(2) _ assms(4) assms(5), of "[]" post] by simp
  obtain c where c: "classifyOne pol (hintValue h, hintLabel ''publisher_raw_type'' h) True = Some c"
    and t: "c_articleType c = ''research-article''" and i: "c_ingestDecision c = ''include''"
    using classifyOne_research[OF assms(5)] by blast
  obtain rawHints seen where ch: "collectHints ''publisher_raw_type'' [] rawTypeHints = (rawHints, seen)"
    by (cases "collectHints ''publisher_raw_type'' [] rawTypeHints") blast
  obtain sem seen' where cs: "collectHints ''title_heuristic'' seen semanticHints = (sem, seen')"
    by (cases "collectHints ''title_heuristic'' seen semanticHints") blast
  have fc: "firstClassified pol True rawHints = Some c"
    using f c ch assms(1) by simp
  have "classifyArticleType pol rawTypeHints semanticHints = c"
    unfolding classifyArticleType_def ch cs by (simp add: fc)
  moreover have "classifyArticleType pol' [] semanticHints = classifyArticleType pol [] semanticHints"
    by (simp add: classifyArticleType_def firstClassified_policy_free[of pol' _ pol])
  ultimately show ?thesis using t i by simp
qed

theorem raw_type_precedence_witness:
  "c_articleType (classifyArticleType ''springer_link''
       [HObj (Some []) (Some ''publisher_raw_type''),
        HObj (Some ''Original Paper'') (Some ''publisher_dom_type'')]
       [HObj (Some ''A Perspective on Markets'') (Some ''title_heuristic'')]) = ''research-article''
   \<and> c_ingestDecision (classifyArticleType ''springer_link''
       [HObj (Some []) (Some ''publisher_raw_type''),
        HObj (Some ''Original Paper'') (Some ''publisher_dom_type'')]
       [HObj (Some ''A Perspective on Markets'') (Some ''title_heuristic'')]) = ''include''
   \<and> fst (normalizeArticleTypeValue ''A Perspective on Markets'' ''springer_link'' False) = ''commentary''"
proof -
  have h2: "\<forall>g \<in> set ([HObj (Some []) (Some ''publisher_raw_type'')]
                       @ [HObj (Some ''Original Paper'') (Some ''publisher_dom_type'')]).
              CHR 0x00 \<notin> set (hintLabel ''publisher_raw_type'' g)"
    by code_simp
  have h3: "\<forall>g \<in> set [HObj (Some []) (Some ''publisher_raw_type'')].
              hintPresent g \<longrightarrow> fst (normalizeArticleTypeValue (hintValue g) ''springer_link'' True) = []"
    by code_simp
  have h4: "hintPresent (HObj (Some ''Original Paper'') (Some ''publisher_dom_type''))"
    by code_simp
  have h5: "fst (normalizeArticleTypeValue
                   (hintValue (HObj (Some ''Original Paper'') (Some ''publisher_dom_type'')))
                   ''springer_link'' True) = ''research-article''"
    by code_simp
  have s: "fst (normalizeArticleTypeValue ''A Perspective on Markets'' ''springer_link'' False) = ''commentary''"
    by code_simp
  show ?thesis
    using raw_type_precedence[OF _ h2 h3 h4 h5, of _ "[]"
            "[HObj (Some ''A Perspective on Markets'') (Some ''title_heuristic'')]"] s
    by simp
qed

theorem raw_type_precedence_counterexample:
  "fst (normalizeArticleTypeValue ''Research Article'' ''wiley'' True) = ''research-article''
   \<and> c_articleType (classifyArticleType ''wiley''
         [HObj (Some ''Book Review'') (Some ''publisher_raw_type''),
          HObj (Some ''Research Article'') (Some ''publisher_dom_type'')]
         [HObj (Some ''Markets and Firms'') (Some ''title_heuristic'')]) = ''book-review''
   \<and> c_ingestDecision (classifyArticleType ''wiley''
         [HObj (Some ''Book Review'') (Some ''publisher_raw_type''),
          HObj (Some ''Research Article'') (Some ''publisher_dom_type'')]
         [HObj (Some ''Markets and Firms'') (Some ''title_heuristic'')]) = ''exclude''"
  by code_simp


section \<open>Claim C7: unsafe links leave before any network access\<close>

lemma classifyUnsafePreNavigationLink_empty:
  "classifyUnsafePreNavigationLink U [] [] = None"
  by (simp add: classifyUnsafePreNavigationLink_def classifyUnsafeAlertManagementLink_def
        classifyUnsupportedUrlScheme_def optOr_def cleanText_def toLowerCase_def)

lemma classifyUnsafePreNavigationLink_reasons:
  assumes "classifyUnsafePreNavigationLink U u t = Some reason"
  shows "reason \<in> {''alert_unsubscribe_link'', ''alert_management_preferences_link'',
                   ''unsupported_url_scheme''}"
proof -
  have a: "classifyUnsafeAlertManagementLink u t = Some x \<Longrightarrow>
           x = ''alert_unsubscribe_link'' \<or> x = ''alert_management_preferences_link''" for x
    unfolding classifyUnsafeAlertManagementLink_def Let_def by (simp split: if_splits)
  have b: "classifyUnsupportedUrlScheme U u = Some x \<Longrightarrow> x = ''unsupported_url_scheme''" for x
    unfolding classifyUnsupportedUrlScheme_def Let_def by (simp split: if_splits option.splits)
  from assms show ?thesis
    unfolding classifyUnsafePreNavigationLink_def optOr_def
    using a b by (auto split: option.splits)
qed

text \<open>
  C7, amended. The state machine classifies the URL text alone (it has no anchor text; the
  input-file reader is what consults anchor text), and the scheme test lets \<open>file:\<close> pass
  as well as \<open>http:\<close> and \<open>https:\<close>. For an input URL as \<open>main\<close> passes it (white space
  normalised) whose DOI canonicalisation returns, with at least one attempt allowed: when
  \<open>classifyUnsafePreNavigationLink\<close> gives a reason for the URL text (an unsubscribe or
  alert-management pattern, or a parseable URL whose scheme is none of \<open>http:\<close>, \<open>https:\<close>,
  \<open>file:\<close>), \<open>verifySingleUrl\<close> returns an excluded record with that reason and leaves
  the world as it was: no tracking fetch, no curl fetch, no browser step, no sleep.
\<close>

theorem unsafe_link_short_circuit:
  assumes "cleanText inputUrl = inputUrl"
      and "normalizeDoi inputUrl = Inr canonical"
      and "0 < maxRetries a"
      and "classifyUnsafePreNavigationLink U inputUrl [] = Some reason"
  shows "\<exists>r. verifySingleUrl E U a inputUrl w = (Returned True r, w)
           \<and> status r = ''excluded'' \<and> ingestDecision r = ''exclude'' \<and> ingestReason r = reason
           \<and> sourceUrl r = inputUrl"
proof -
  have ne: "inputUrl \<noteq> []"
    using assms(4) classifyUnsafePreNavigationLink_empty[of U] by auto
  have rne: "reason \<noteq> []"
    using classifyUnsafePreNavigationLink_reasons[OF assms(4)] by auto
  obtain n where n: "maxRetries a = Suc n"
    using assms(3) by (cases "maxRetries a") auto
  have t: "uniqueStrings [inputUrl, canonical] = inputUrl # uniqueFrom [inputUrl] [canonical]"
    using uniqueStrings_first[OF assms(1) ne] .
  obtain d where d: "firstDoi (normalizeDoi inputUrl) (normalizeDoi inputUrl) = Inr d"
    using assms(2) by (simp add: firstDoi_def)
  define r where "r =
     \<lparr>sourceUrl = inputUrl, finalUrl = orElse inputUrl inputUrl, title = ''[Not verified]'',
      authors = [], year = ''[Not verified]'', journal = ''[Not verified]'',
      volume = ''[Not verified]'', issue = ''[Not verified]'', pageRange = ''[Not verified]'',
      publishedOnline = ''[Not verified]'', doiUrl = ensureField d,
      abstract = ''[Not verified]'', citation = ''[Not verified]'',
      missingFields = [''title'', ''journal'', ''year'', ''abstract'', ''citation''],
      status = ''excluded'', articleTypeRaw = ''non-article-link'',
      articleType = ''announcement'', ingestDecision = ''exclude'',
      ingestReason = orElse reason ''non_article_link'',
      articleTypeClassificationSource = ''none'', articleTypeMatchedHint = [],
      policyName = orElse (name (policyForUrl U inputUrl)) ''default'',
      policyProtected = protected (policyForUrl U inputUrl),
      resolvedUrl = orElse inputUrl inputUrl, errors = []\<rparr>"
  have b: "buildExcludedLinkRecord inputUrl inputUrl (policyForUrl U inputUrl) reason = Inr r"
    by (simp add: buildExcludedLinkRecord_def d r_def)
  have p: "processTarget E U a inputUrl k inputUrl st = Done (Returned True r) (ls_world st)" for st k
    by (simp add: processTarget_def assms(4) b finish_def)
  have "verifySingleUrl E U a inputUrl w = (Returned True r, w)"
    by (simp add: verifySingleUrl_def assms(2) t n p)
  moreover have "status r = ''excluded''" "ingestDecision r = ''exclude''" "sourceUrl r = inputUrl"
    by (simp_all add: r_def)
  moreover have "ingestReason r = reason"
    using rne by (simp add: r_def orElse_def)
  ultimately show ?thesis by blast
qed

theorem unsafe_link_short_circuit_witness:
  "\<exists>r. verifySingleUrl onlineEnv simpleUrlApi defaultArgs ''mailto:bob@x.org'' freshWorld
          = (Returned True r, freshWorld)
       \<and> status r = ''excluded'' \<and> ingestDecision r = ''exclude''
       \<and> ingestReason r = ''unsupported_url_scheme'' \<and> sourceUrl r = ''mailto:bob@x.org''"
proof -
  have h1: "cleanText ''mailto:bob@x.org'' = ''mailto:bob@x.org''" by code_simp
  have h2: "normalizeDoi ''mailto:bob@x.org'' = Inr []" by code_simp
  have h3: "0 < maxRetries defaultArgs" by code_simp
  have h4: "classifyUnsafePreNavigationLink simpleUrlApi ''mailto:bob@x.org'' []
            = Some ''unsupported_url_scheme''" by code_simp
  show ?thesis
    using unsafe_link_short_circuit[OF h1 h2 h3 h4, of onlineEnv freshWorld] .
qed

text \<open>The claim as stated fails for a \<open>file:\<close> URL: its scheme is neither HTTP nor HTTPS,
  the classifier lets it pass, and the state machine goes on to navigate the browser to it.\<close>

theorem unsafe_link_file_scheme_counterexample:
  "map_option protocol (newURL simpleUrlApi ''file:///tmp/a.html'') = Some ''file:''
   \<and> classifyUnsafePreNavigationLink simpleUrlApi ''file:///tmp/a.html'' [] = None
   \<and> (case verifySingleUrl offlineEnv simpleUrlApi
              \<lparr>maxRetries = 1, skipTrackingResolution = False, sciencedirectMode = ''auto''\<rparr>
              ''file:///tmp/a.html'' freshWorld of
         (Returned ok r, w') \<Rightarrow>
            (status r, trace w')
            = (''not_verified'', [GetContext, NewPage, Goto ''file:///tmp/a.html'', PageClose, Sleep 2000])
       | (Threw e, w') \<Rightarrow> False)"
  by code_simp


section \<open>Claim C8: exceptions of the per-URL function\<close>

text \<open>
  C8 says that \<open>verifySingleUrl\<close> never lets an exception reach its caller. Its first
  statement, \<open>normalizeDoi(inputUrl)\<close>, stands before the retry loop and outside every
  \<open>try\<close>: for an input URL with a percent sign that starts no escape sequence the
  \<open>URIError\<close> of \<open>decodeURIComponent\<close> leaves the function, in any world and with any
  arguments, and rejects the whole verification pass.
\<close>

theorem verifySingleUrl_propagates_URIError:
  "verifySingleUrl E U a ''https://example.com/a?rate=100%'' w = (Threw URIError, w)
   \<and> runVerificationPass E U a (''https://example.com/a?rate=100%'' # urls) w = (Inl URIError, w)"
proof -
  have "normalizeDoi ''https://example.com/a?rate=100%'' = Inl URIError" by code_simp
  then have "verifySingleUrl E U a ''https://example.com/a?rate=100%'' w = (Threw URIError, w)"
    by (simp add: verifySingleUrl_def)
  then show ?thesis by simp
qed


section \<open>Claim C10: \<open>normalizeDoi\<close> on malformed percent-encoding\<close>

text \<open>
  C10 says that \<open>normalizeDoi\<close> returns a string on every input and never throws.
  On the input \<open>%\<close> (a lone percent sign) \<open>decodeURIComponent\<close> throws a
  \<open>URIError\<close>, which \<open>normalizeDoi\<close> does not catch; the same happens for a URL that
  carries a percent sign not followed by two hex digits.
\<close>

theorem normalizeDoi_lone_percent_throws:
  "normalizeDoi ''%'' = Inl URIError \<and>
   normalizeDoi ''https://example.com/a?rate=100%'' = Inl URIError"
  by code_simp

end
